theory Spec2Isabelle
  imports Main "HOL-Library.Word"
begin

section \<open>MotionPhotoMuxer: a shallow embedding of \<^verbatim>\<open>MotionPhotoMuxer.py\<close>\<close>

text \<open>
  The program reads and writes files, so every function of the source becomes a function
  on an explicit store. Exceptions are values: a call returns an \<open>outcome\<close> together with
  the state it leaves behind, because the effects that happened before a raise persist.
  Logging is not modelled: no statement below is about the log.
\<close>

subsection \<open>Strings (\<^verbatim>\<open>str.lower\<close>, \<^verbatim>\<open>str.endswith\<close>)\<close>

text \<open>
  Paths are byte strings. \<^verbatim>\<open>str.lower\<close> maps the ASCII capitals to small letters; here
  it leaves every other byte alone. The program only asks whether a lowered string ends
  in, or is, one of a few ASCII words (\<^verbatim>\<open>.jpg\<close>, \<^verbatim>\<open>.jpeg\<close>, \<^verbatim>\<open>.heic\<close>, \<^verbatim>\<open>.mov\<close>, \<^verbatim>\<open>.mp4\<close>,
  \<^verbatim>\<open>yes\<close>, \<^verbatim>\<open>no\<close>), and lowering a character outside ASCII never gives just a letter of
  these words, so the answers are those of \<^verbatim>\<open>str.lower\<close>.
\<close>

definition lower_char :: "char \<Rightarrow> char" where
  "lower_char c =
     (case map_of (zip ''ABCDEFGHIJKLMNOPQRSTUVWXYZ'' ''abcdefghijklmnopqrstuvwxyz'') c of
        Some d \<Rightarrow> d
      | None \<Rightarrow> c)"

definition lower :: "string \<Rightarrow> string" where
  "lower s = map lower_char s"

definition endswith :: "string \<Rightarrow> string \<Rightarrow> bool" where
  "endswith s suf = (length suf \<le> length s \<and> drop (length s - length suf) s = suf)"

subsection \<open>\<^verbatim>\<open>os.path\<close> on POSIX\<close>

text \<open>
  \<open>pathhead p\<close> is \<^verbatim>\<open>p[:i]\<close> and \<open>basename p\<close> is \<^verbatim>\<open>p[i:]\<close> for
  \<^verbatim>\<open>i = p.rfind('/') + 1\<close>, as in \<^verbatim>\<open>posixpath.split\<close> and \<^verbatim>\<open>posixpath.basename\<close>.
\<close>

definition is_sep :: "char \<Rightarrow> bool" where
  "is_sep c = (c = CHR ''/'')"

definition is_dot :: "char \<Rightarrow> bool" where
  "is_dot c = (c = CHR ''.'')"

definition basename :: "string \<Rightarrow> string" where
  "basename p = rev (takeWhile (\<lambda>c. \<not> is_sep c) (rev p))"

definition pathhead :: "string \<Rightarrow> string" where
  "pathhead p = rev (dropWhile (\<lambda>c. \<not> is_sep c) (rev p))"

definition rstrip_sep :: "string \<Rightarrow> string" where
  "rstrip_sep h = rev (dropWhile is_sep (rev h))"

text \<open>\<^verbatim>\<open>posixpath.split\<close>: trailing slashes of the head go, unless the head is all slashes.\<close>

definition os_path_split :: "string \<Rightarrow> string \<times> string" where
  "os_path_split p =
     (let head = pathhead p; tail = basename p
      in (if head \<noteq> [] \<and> \<not> list_all is_sep head then rstrip_sep head else head, tail))"

definition dirname :: "string \<Rightarrow> string" where
  "dirname p = fst (os_path_split p)"

text \<open>\<^verbatim>\<open>posixpath.join\<close> of two components.\<close>

definition os_path_join :: "string \<Rightarrow> string \<Rightarrow> string" where
  "os_path_join a b =
     (if b \<noteq> [] \<and> is_sep (hd b) then b
      else if a = [] \<or> is_sep (last a) then a @ b
      else a @ ''/'' @ b)"

text \<open>
  \<^verbatim>\<open>posixpath.splitext\<close>: the extension starts at the last dot of the last component,
  provided some character of that component before the dot is not a dot; otherwise the
  extension is empty.
\<close>

definition splitext :: "string \<Rightarrow> string \<times> string" where
  "splitext p =
     (let tail = basename p;
          ext = rev (takeWhile (\<lambda>c. \<not> is_dot c) (rev tail));
          stem = rev (tl (dropWhile (\<lambda>c. \<not> is_dot c) (rev tail)))
      in if list_ex is_dot tail \<and> list_ex (\<lambda>c. \<not> is_dot c) stem
         then (pathhead p @ stem, CHR ''.'' # ext)
         else (p, []))"

subsection \<open>The file system\<close>

text \<open>
  A store from path strings to nodes. A regular file holds its bytes; a directory holds
  the names \<^verbatim>\<open>os.scandir\<close> lists, in listing order. The store is keyed by the path as
  the program spells it: two spellings of one file (\<^verbatim>\<open>d/a\<close> and \<^verbatim>\<open>./d/a\<close>), symbolic
  links and hard links are outside the model. The empty path is the working directory
  when it is the parent of a relative name.
\<close>

type_synonym bytes = "8 word list"

type_synonym path = string

datatype node = File bytes | Dir "string list"

type_synonym filesystem = "path \<Rightarrow> node option"

datatype error =
    FileNotFoundError
  | IsADirectoryError
  | NotADirectoryError
  | FileExistsError
  | HeifError
  | MetadataError
  | TypeError
  | EOFError
  | SystemExit nat

datatype 'a outcome = Returned 'a | Raised error

definition os_path_exists :: "filesystem \<Rightarrow> path \<Rightarrow> bool" where
  "os_path_exists fs p = (case fs p of None \<Rightarrow> False | Some n \<Rightarrow> True)"

definition os_path_isdir :: "filesystem \<Rightarrow> path \<Rightarrow> bool" where
  "os_path_isdir fs p = (case fs p of Some (Dir ns) \<Rightarrow> True | _ \<Rightarrow> False)"

definition os_path_isfile :: "filesystem \<Rightarrow> path \<Rightarrow> bool" where
  "os_path_isfile fs p = (case fs p of Some (File b) \<Rightarrow> True | _ \<Rightarrow> False)"

text \<open>
  \<^verbatim>\<open>os.path.getsize\<close> is \<^verbatim>\<open>st_size\<close>: the number of bytes of a regular file. For a
  directory the value is the platform's; \<open>dir_st_size\<close> is what ext4 reports.
\<close>

definition dir_st_size :: int where
  "dir_st_size = 4096"

definition os_path_getsize :: "filesystem \<Rightarrow> path \<Rightarrow> int outcome" where
  "os_path_getsize fs p =
     (case fs p of
        None \<Rightarrow> Raised FileNotFoundError
      | Some (File b) \<Rightarrow> Returned (int (length b))
      | Some (Dir ns) \<Rightarrow> Returned dir_st_size)"

text \<open>\<^verbatim>\<open>open(p, "rb")\<close>: the file must exist and be a regular file.\<close>

definition open_rb :: "filesystem \<Rightarrow> path \<Rightarrow> unit outcome" where
  "open_rb fs p =
     (case fs p of
        None \<Rightarrow> Raised FileNotFoundError
      | Some (Dir ns) \<Rightarrow> Raised IsADirectoryError
      | Some (File b) \<Rightarrow> Returned ())"

text \<open>Entering a name in the listing of its parent directory, when the parent is in the store.\<close>

definition link_entry :: "filesystem \<Rightarrow> path \<Rightarrow> filesystem" where
  "link_entry fs p =
     (case fs (dirname p) of
        Some (Dir ns) \<Rightarrow>
          (if basename p \<in> set ns then fs else fs(dirname p \<mapsto> Dir (ns @ [basename p])))
      | _ \<Rightarrow> fs)"

text \<open>
  \<^verbatim>\<open>open(p, "wb")\<close> creates the file or truncates it to length zero, at once. It fails on a
  directory and when the parent directory is missing.
\<close>

definition parent_error :: "filesystem \<Rightarrow> path \<Rightarrow> error option" where
  "parent_error fs p =
     (if dirname p = [] then (if p = [] then Some FileNotFoundError else None)
      else case fs (dirname p) of
             None \<Rightarrow> Some FileNotFoundError
           | Some (File b) \<Rightarrow> Some NotADirectoryError
           | Some (Dir ns) \<Rightarrow> None)"

definition open_wb :: "filesystem \<Rightarrow> path \<Rightarrow> unit outcome \<times> filesystem" where
  "open_wb fs p =
     (if os_path_isdir fs p then (Raised IsADirectoryError, fs)
      else case parent_error fs p of
             Some e \<Rightarrow> (Raised e, fs)
           | None \<Rightarrow> (Returned (), (link_entry fs p)(p \<mapsto> File [])))"

text \<open>Closing a file opened for writing leaves everything written to it in the file.\<close>

definition write_close :: "filesystem \<Rightarrow> path \<Rightarrow> bytes \<Rightarrow> filesystem" where
  "write_close fs p b = fs(p \<mapsto> File b)"

text \<open>
  \<^verbatim>\<open>os.mkdir\<close> and \<^verbatim>\<open>os.makedirs(name, exist_ok)\<close>, the latter as the standard library
  writes it: create the missing ancestors first, then the leaf, and swallow the error of
  the leaf's \<^verbatim>\<open>mkdir\<close> when \<open>exist_ok\<close> is set and the leaf is a directory.
\<close>

definition os_mkdir :: "filesystem \<Rightarrow> path \<Rightarrow> unit outcome \<times> filesystem" where
  "os_mkdir fs name =
     (if os_path_exists fs name then (Raised FileExistsError, fs)
      else case parent_error fs name of
             Some e \<Rightarrow> (Raised e, fs)
           | None \<Rightarrow> (Returned (), (link_entry fs name)(name \<mapsto> Dir [])))"

definition mkdir_leaf :: "filesystem \<Rightarrow> path \<Rightarrow> bool \<Rightarrow> unit outcome \<times> filesystem" where
  "mkdir_leaf fs name exist_ok =
     (case os_mkdir fs name of
        (Returned u, fs') \<Rightarrow> (Returned (), fs')
      | (Raised e, fs') \<Rightarrow>
          (if \<not> exist_ok then (Raised e, fs')
           else if \<not> os_path_isdir fs' name then (Raised e, fs')
           else (Returned (), fs')))"

definition makedirs_split :: "path \<Rightarrow> string \<times> string" where
  "makedirs_split name =
     (if snd (os_path_split name) = [] then os_path_split (fst (os_path_split name))
      else os_path_split name)"

lemma length_pathhead_basename: "length (pathhead p) + length (basename p) = length p"
proof -
  have "length (takeWhile (\<lambda>c. \<not> is_sep c) (rev p)) + length (dropWhile (\<lambda>c. \<not> is_sep c) (rev p))
        = length (rev p)"
    by (metis length_append takeWhile_dropWhile_id)
  then show ?thesis by (simp add: pathhead_def basename_def)
qed

lemma length_rstrip_sep: "length (rstrip_sep h) \<le> length h"
  using length_dropWhile_le [of is_sep "rev h"] by (simp add: rstrip_sep_def)

lemma length_split_head: "length (fst (os_path_split p)) + length (snd (os_path_split p)) \<le> length p"
  using length_pathhead_basename [of p] length_rstrip_sep [of "pathhead p"]
  by (simp add: os_path_split_def Let_def)

lemma makedirs_split_shorter:
  "snd (makedirs_split name) \<noteq> [] \<Longrightarrow> length (fst (makedirs_split name)) < length name"
proof (cases "snd (os_path_split name) = []")
  case True
  assume a: "snd (makedirs_split name) \<noteq> []"
  from True a have "snd (os_path_split (fst (os_path_split name))) \<noteq> []"
    by (simp add: makedirs_split_def)
  then have "0 < length (snd (os_path_split (fst (os_path_split name))))"
    by simp
  then have "length (fst (os_path_split (fst (os_path_split name)))) < length (fst (os_path_split name))"
    using length_split_head [of "fst (os_path_split name)"] by linarith
  moreover have "length (fst (os_path_split name)) \<le> length name"
    using length_split_head [of name] by simp
  ultimately show ?thesis using True by (simp add: makedirs_split_def)
next
  case False
  then have "0 < length (snd (os_path_split name))"
    by simp
  then have "length (fst (os_path_split name)) < length name"
    using length_split_head [of name] by linarith
  with False show ?thesis by (simp add: makedirs_split_def)
qed

function os_makedirs :: "filesystem \<Rightarrow> path \<Rightarrow> bool \<Rightarrow> unit outcome \<times> filesystem" where
  "os_makedirs fs name exist_ok =
     (if fst (makedirs_split name) \<noteq> [] \<and> snd (makedirs_split name) \<noteq> []
         \<and> \<not> os_path_exists fs (fst (makedirs_split name))
      then (case os_makedirs fs (fst (makedirs_split name)) exist_ok of
              (Raised e, fs1) \<Rightarrow>
                (if e = FileExistsError
                 then (if snd (makedirs_split name) = ''.'' then (Returned (), fs1)
                       else mkdir_leaf fs1 name exist_ok)
                 else (Raised e, fs1))
            | (Returned u, fs1) \<Rightarrow>
                (if snd (makedirs_split name) = ''.'' then (Returned (), fs1)
                 else mkdir_leaf fs1 name exist_ok))
      else mkdir_leaf fs name exist_ok)"
  by pat_completeness auto
termination
  by (relation "measure (\<lambda>(fs, name, exist_ok). length name)")
     (auto simp: makedirs_split_shorter)

declare os_makedirs.simps [simp del]

subsection \<open>External collaborators\<close>

text \<open>
  The codecs are libraries outside the repository, so they are parameters of the model.
  \<^item> \<open>heif_read\<close>: \<^verbatim>\<open>pyheif.read\<close> and \<^verbatim>\<open>Image.frombytes\<close>, from the bytes of the HEIC file
    to the decoded image and the value of \<^verbatim>\<open>heif_file.metadata\<close>, which is \<^verbatim>\<open>None\<close> or a list
    of typed blocks; \<open>None\<close> when decoding raises.
  \<^item> \<open>jpeg_encode\<close>: the JPEG writer that \<^verbatim>\<open>Image.save(..., "JPEG", quality=100, exif=...)\<close>
    runs on the file it has opened, given the image and that metadata value as \<^verbatim>\<open>exif\<close>:
    the bytes of the JPEG, or the exception it raises and the bytes it had written by
    then.
  \<^item> \<open>save_cleanup\<close>: whether \<^verbatim>\<open>Image.save\<close> removes a file that it created itself when the
    writer raises; newer versions of Pillow do, older ones leave the file.
  \<^item> \<open>xmp_read\<close>: \<^verbatim>\<open>ImageMetadata.read\<close>, from the bytes of a file to its XMP properties;
    \<open>None\<close> when exiv2 raises.
  \<^item> \<open>xmp_write\<close>: \<^verbatim>\<open>ImageMetadata.write\<close>, the bytes of the file with the properties
    embedded; \<open>None\<close> when exiv2 raises (the file is then left as it was).
  \<^item> \<open>written_through\<close>: the part of one \<^verbatim>\<open>write\<close> to a freshly opened buffered file
    that has reached the file before it is closed. It only matters when a file is read
    while it is open for writing.
\<close>

datatype xmp_value = XmpInt int | XmpText string

type_synonym xmp = "string \<Rightarrow> xmp_value option"

type_synonym image = bytes

type_synonym heif_metadata = "(string \<times> bytes) list option"

datatype encoded = Encoded bytes | EncoderRaised error bytes

record collab =
  heif_read :: "bytes \<Rightarrow> (image \<times> heif_metadata) option"
  jpeg_encode :: "image \<Rightarrow> heif_metadata \<Rightarrow> encoded"
  save_cleanup :: bool
  xmp_read :: "bytes \<Rightarrow> xmp option"
  xmp_write :: "bytes \<Rightarrow> xmp \<Rightarrow> bytes option"
  written_through :: "bytes \<Rightarrow> bytes"

text \<open>
  The state of a run: the file system and the XMP namespace prefixes registered with
  exiv2 (a registry of the process, which \<^verbatim>\<open>register_namespace\<close> extends).
\<close>

record state =
  filesys :: filesystem
  xmp_prefixes :: "string set"

subsection \<open>\<^verbatim>\<open>validate_directory\<close>, \<^verbatim>\<open>validate_media\<close>\<close>

definition validate_directory :: "filesystem \<Rightarrow> path \<Rightarrow> unit outcome" where
  "validate_directory fs dir =
     (if \<not> os_path_exists fs dir then Raised (SystemExit 1)
      else if \<not> os_path_isdir fs dir then Raised (SystemExit 1)
      else Returned ())"

definition validate_media :: "filesystem \<Rightarrow> path \<Rightarrow> path \<Rightarrow> bool" where
  "validate_media fs photo_path video_path =
     (if \<not> os_path_exists fs photo_path then False
      else if \<not> os_path_exists fs video_path then False
      else if \<not> (if endswith (lower photo_path) ''.jpg'' then True
                   else endswith (lower photo_path) ''.jpeg'') then False
      else if \<not> (if endswith (lower video_path) ''.mov'' then True
                   else endswith (lower video_path) ''.mp4'') then False
      else True)"

subsection \<open>\<^verbatim>\<open>merge_files\<close>\<close>

text \<open>
  The \<^verbatim>\<open>with\<close> statement opens the output for writing first, which truncates it, then the
  photo and the video for reading; the reads come after all three opens. The content of
  an opened file is read from the store as it is at the time of the \<^verbatim>\<open>read\<close>.
\<close>

definition file_content :: "filesystem \<Rightarrow> path \<Rightarrow> bytes" where
  "file_content fs p = (case fs p of Some (File b) \<Rightarrow> b | _ \<Rightarrow> [])"

definition merge_files ::
  "collab \<Rightarrow> filesystem \<Rightarrow> path \<Rightarrow> path \<Rightarrow> path \<Rightarrow> path outcome \<times> filesystem" where
  "merge_files L fs0 photo_path video_path output_path =
     (let out_path = os_path_join output_path (basename photo_path)
      in case os_makedirs fs0 (dirname out_path) True of
           (Raised e, fs1) \<Rightarrow> (Raised e, fs1)
         | (Returned u, fs1) \<Rightarrow>
             (case open_wb fs1 out_path of
                (Raised e, fs2) \<Rightarrow> (Raised e, fs2)
              | (Returned u, fs2) \<Rightarrow>
                  (case open_rb fs2 photo_path of
                     Raised e \<Rightarrow> (Raised e, fs2)
                   | Returned u \<Rightarrow>
                       (case open_rb fs2 video_path of
                          Raised e \<Rightarrow> (Raised e, fs2)
                        | Returned u \<Rightarrow>
                            (let photo = file_content fs2 photo_path;
                                 fs3 = fs2(out_path \<mapsto> File (written_through L photo));
                                 video = file_content fs3 video_path
                             in (Returned out_path, write_close fs3 out_path (photo @ video)))))))"

subsection \<open>\<^verbatim>\<open>add_xmp_metadata\<close>\<close>

text \<open>
  \<^verbatim>\<open>register_namespace\<close> raises \<^verbatim>\<open>KeyError\<close> when the prefix is registered already; the
  source catches it and goes on, so in both cases the prefix is registered afterwards.
\<close>

definition register_namespace :: "state \<Rightarrow> string \<Rightarrow> state" where
  "register_namespace st prefix =
     (if prefix \<in> xmp_prefixes st then st
      else st\<lparr>xmp_prefixes := insert prefix (xmp_prefixes st)\<rparr>)"

definition set_micro_video :: "xmp \<Rightarrow> int \<Rightarrow> xmp" where
  "set_micro_video m offset =
     m(''Xmp.GCamera.MicroVideo'' \<mapsto> XmpInt 1,
       ''Xmp.GCamera.MicroVideoVersion'' \<mapsto> XmpInt 1,
       ''Xmp.GCamera.MicroVideoOffset'' \<mapsto> XmpInt offset,
       ''Xmp.GCamera.MicroVideoPresentationTimestampUs'' \<mapsto> XmpInt 1500000)"

definition add_xmp_metadata :: "collab \<Rightarrow> state \<Rightarrow> path \<Rightarrow> int \<Rightarrow> unit outcome \<times> state" where
  "add_xmp_metadata L st merged_file offset =
     (case filesys st merged_file of
        Some (File b) \<Rightarrow>
          (case xmp_read L b of
             None \<Rightarrow> (Raised MetadataError, st)
           | Some metadata \<Rightarrow>
               (let st1 = register_namespace st ''GCamera''
                in case xmp_write L b (set_micro_video metadata offset) of
                     None \<Rightarrow> (Raised MetadataError, st1)
                   | Some b' \<Rightarrow> (Returned (), st1\<lparr>filesys := (filesys st1)(merged_file \<mapsto> File b')\<rparr>)))
      | _ \<Rightarrow> (Raised MetadataError, st))"

subsection \<open>\<^verbatim>\<open>convert\<close>\<close>

definition video_size_limit_mb :: int where
  "video_size_limit_mb = 10"

text \<open>
  The condition of the size gate (line 98). \<^verbatim>\<open>or\<close> evaluates \<^verbatim>\<open>getsize\<close> only when the
  video exists.
\<close>

definition size_gate :: "filesystem \<Rightarrow> path \<Rightarrow> bool outcome" where
  "size_gate fs video_path =
     (if \<not> os_path_exists fs video_path then Returned True
      else case os_path_getsize fs video_path of
             Raised e \<Rightarrow> Raised e
           | Returned n \<Rightarrow> Returned (n > video_size_limit_mb * 1024 * 1024))"

text \<open>
  \<^verbatim>\<open>os.remove\<close> of a regular file, as \<^verbatim>\<open>Image.save\<close> uses it: the file goes, and its name
  goes from the listing of its directory.
\<close>

definition unlink_entry :: "filesystem \<Rightarrow> path \<Rightarrow> filesystem" where
  "unlink_entry fs p =
     (case fs (dirname p) of
        Some (Dir ns) \<Rightarrow> fs(dirname p \<mapsto> Dir (removeAll (basename p) ns))
      | _ \<Rightarrow> fs)"

definition os_remove :: "filesystem \<Rightarrow> path \<Rightarrow> filesystem" where
  "os_remove fs p = (unlink_entry fs p)(p := None)"

text \<open>
  \<^verbatim>\<open>Image.save(p, "JPEG", quality=100, exif=metadata)\<close>, as Pillow writes it: note whether
  the file exists, open it for writing, which creates or truncates it, and only then run
  the writer. When the writer raises, the file is closed with what was written by then,
  a file that the call created is removed again, and the exception goes on.
\<close>

definition image_save ::
  "collab \<Rightarrow> filesystem \<Rightarrow> path \<Rightarrow> image \<Rightarrow> heif_metadata \<Rightarrow> unit outcome \<times> filesystem" where
  "image_save L fs0 filename img metadata =
     (let created = \<not> os_path_exists fs0 filename
      in case open_wb fs0 filename of
           (Raised e, fs1) \<Rightarrow> (Raised e, fs1)
         | (Returned u, fs1) \<Rightarrow>
             (case jpeg_encode L img metadata of
                Encoded jpeg \<Rightarrow> (Returned (), write_close fs1 filename jpeg)
              | EncoderRaised e partial \<Rightarrow>
                  (Raised e,
                   if created \<and> save_cleanup L
                   then os_remove (write_close fs1 filename partial) filename
                   else write_close fs1 filename partial)))"

text \<open>
  The HEIC block (lines 104 to 117): open the photo, decode it, and save the image as a
  JPEG at \<^verbatim>\<open>os.path.splitext(photo_path)[0] + '.jpg'\<close> with \<^verbatim>\<open>exif=heif_file.metadata\<close>. The
  result is the new \<^verbatim>\<open>photo_path\<close>.
\<close>

definition heic_to_jpeg_file :: "collab \<Rightarrow> filesystem \<Rightarrow> path \<Rightarrow> path outcome \<times> filesystem" where
  "heic_to_jpeg_file L fs0 photo_path =
     (case open_rb fs0 photo_path of
        Raised e \<Rightarrow> (Raised e, fs0)
      | Returned u \<Rightarrow>
          (case heif_read L (file_content fs0 photo_path) of
             None \<Rightarrow> (Raised HeifError, fs0)
           | Some (img, metadata) \<Rightarrow>
               (let jpeg_path = fst (splitext photo_path) @ ''.jpg''
                in case image_save L fs0 jpeg_path img metadata of
                     (Raised e, fs1) \<Rightarrow> (Raised e, fs1)
                   | (Returned u, fs1) \<Rightarrow> (Returned jpeg_path, fs1))))"

text \<open>
  \<^verbatim>\<open>convert\<close> returns \<^verbatim>\<open>False\<close> at the size gate and falls off its end otherwise, which
  returns \<^verbatim>\<open>None\<close>: the result is a \<open>bool option\<close>.
\<close>

definition convert ::
  "collab \<Rightarrow> state \<Rightarrow> path \<Rightarrow> path \<Rightarrow> path \<Rightarrow> bool \<Rightarrow> bool option outcome \<times> state" where
  "convert L st photo_path video_path output_path convert_all =
     (case (if \<not> convert_all then size_gate (filesys st) video_path else Returned False) of
        Raised e \<Rightarrow> (Raised e, st)
      | Returned skip \<Rightarrow>
          if skip then (Returned (Some False), st)
          else
            (case (if endswith (lower photo_path) ''.heic''
                   then heic_to_jpeg_file L (filesys st) photo_path
                   else (Returned photo_path, filesys st)) of
               (Raised e, fs1) \<Rightarrow> (Raised e, st\<lparr>filesys := fs1\<rparr>)
             | (Returned photo_path', fs1) \<Rightarrow>
                 (case merge_files L fs1 photo_path' video_path output_path of
                    (Raised e, fs2) \<Rightarrow> (Raised e, st\<lparr>filesys := fs2\<rparr>)
                  | (Returned merged, fs2) \<Rightarrow>
                      (case os_path_getsize fs2 photo_path' of
                         Raised e \<Rightarrow> (Raised e, st\<lparr>filesys := fs2\<rparr>)
                       | Returned photo_filesize \<Rightarrow>
                           (case os_path_getsize fs2 merged of
                              Raised e \<Rightarrow> (Raised e, st\<lparr>filesys := fs2\<rparr>)
                            | Returned merged_filesize \<Rightarrow>
                                (case add_xmp_metadata L (st\<lparr>filesys := fs2\<rparr>) merged
                                        (merged_filesize - photo_filesize) of
                                   (Raised e, st3) \<Rightarrow> (Raised e, st3)
                                 | (Returned u, st3) \<Rightarrow> (Returned None, st3)))))))"

text \<open>
  Lines 119 to 126 on their own: what \<open>convert\<close> does with the photo path it has settled
  on, the path it was given or the path of the JPEG that the HEIC block saved.
\<close>

definition mux_and_tag ::
  "collab \<Rightarrow> state \<Rightarrow> path \<Rightarrow> path \<Rightarrow> path \<Rightarrow> bool option outcome \<times> state" where
  "mux_and_tag L st photo_path video_path output_path =
     (case merge_files L (filesys st) photo_path video_path output_path of
        (Raised e, fs2) \<Rightarrow> (Raised e, st\<lparr>filesys := fs2\<rparr>)
      | (Returned merged, fs2) \<Rightarrow>
          (case os_path_getsize fs2 photo_path of
             Raised e \<Rightarrow> (Raised e, st\<lparr>filesys := fs2\<rparr>)
           | Returned photo_filesize \<Rightarrow>
               (case os_path_getsize fs2 merged of
                  Raised e \<Rightarrow> (Raised e, st\<lparr>filesys := fs2\<rparr>)
                | Returned merged_filesize \<Rightarrow>
                    (case add_xmp_metadata L (st\<lparr>filesys := fs2\<rparr>) merged
                            (merged_filesize - photo_filesize) of
                       (Raised e, st3) \<Rightarrow> (Raised e, st3)
                     | (Returned u, st3) \<Rightarrow> (Returned None, st3)))))"

subsection \<open>\<^verbatim>\<open>matching_video\<close>\<close>

fun first_existing :: "filesystem \<Rightarrow> string \<Rightarrow> string list \<Rightarrow> path" where
  "first_existing fs base [] = []"
| "first_existing fs base (ext # exts) =
     (if os_path_exists fs (base @ ext) then base @ ext else first_existing fs base exts)"

definition video_exts :: "string list" where
  "video_exts = [''.mov'', ''.mp4'', ''.MOV'', ''.MP4'']"

definition matching_video :: "filesystem \<Rightarrow> path \<Rightarrow> path" where
  "matching_video fs photo_path = first_existing fs (fst (splitext photo_path)) video_exts"

subsection \<open>\<^verbatim>\<open>process_directory\<close>\<close>

text \<open>
  \<^verbatim>\<open>os.walk(top)\<close>, top down: the triple of \<open>top\<close> itself, then the walks of its
  subdirectories in listing order; nothing when \<open>top\<close> cannot be listed. The recursion
  follows the store, so it takes fuel: \<open>None\<close> is a walk that did not finish within it.
\<close>

fun os_walk :: "nat \<Rightarrow> filesystem \<Rightarrow> path \<Rightarrow> (path \<times> string list \<times> string list) list option" where
  "os_walk 0 fs top_dir = None"
| "os_walk (Suc n) fs top_dir =
     (case fs top_dir of
        Some (Dir names) \<Rightarrow>
          (let dirs = filter (\<lambda>name. os_path_isdir fs (os_path_join top_dir name)) names;
               nondirs = filter (\<lambda>name. \<not> os_path_isdir fs (os_path_join top_dir name)) names
           in case those (map (\<lambda>name. os_walk n fs (os_path_join top_dir name)) dirs) of
                None \<Rightarrow> None
              | Some below \<Rightarrow> Some ((top_dir, dirs, nondirs) # concat below))
      | _ \<Rightarrow> Some [])"

definition photo_exts :: "string list" where
  "photo_exts = [''.jpg'', ''.jpeg'', ''.heic'']"

fun pairs_in :: "filesystem \<Rightarrow> path \<Rightarrow> string list \<Rightarrow> (path \<times> path) list" where
  "pairs_in fs root [] = []"
| "pairs_in fs root (file # files) =
     (let file_fullpath = os_path_join root file
      in if os_path_isfile fs file_fullpath
         then (if lower (snd (splitext file)) \<in> set photo_exts
               then (let video_path = matching_video fs file_fullpath
                     in if video_path \<noteq> [] then (file_fullpath, video_path) # pairs_in fs root files
                        else pairs_in fs root files)
               else pairs_in fs root files)
         else pairs_in fs root files)"

text \<open>The body never reads \<^verbatim>\<open>recurse\<close>.\<close>

definition process_directory ::
  "nat \<Rightarrow> filesystem \<Rightarrow> path \<Rightarrow> bool \<Rightarrow> (path \<times> path) list option" where
  "process_directory fuel fs file_dir recurse =
     (case os_walk fuel fs file_dir of
        None \<Rightarrow> None
      | Some walked \<Rightarrow> Some (concat (map (\<lambda>(root, dirs, files). pairs_in fs root files) walked)))"

subsection \<open>\<^verbatim>\<open>main\<close>\<close>

text \<open>
  The loop of lines 176 to 180 over the pairs, with the set \<^verbatim>\<open>processed_files\<close>. An
  exception of \<^verbatim>\<open>convert\<close> is caught nowhere, so it ends the loop.
\<close>

fun convert_pairs ::
  "collab \<Rightarrow> path \<Rightarrow> bool \<Rightarrow> (path \<times> path) list \<Rightarrow> state \<Rightarrow> path set
     \<Rightarrow> unit outcome \<times> state \<times> path set" where
  "convert_pairs L out_dir convert_all [] st processed_files = (Returned (), st, processed_files)"
| "convert_pairs L out_dir convert_all (pair # pairs) st processed_files =
     (if validate_media (filesys st) (fst pair) (snd pair)
      then (case convert L st (fst pair) (snd pair) out_dir convert_all of
              (Raised e, st') \<Rightarrow> (Raised e, st', processed_files)
            | (Returned r, st') \<Rightarrow>
                convert_pairs L out_dir convert_all pairs st'
                  (insert (snd pair) (insert (fst pair) processed_files)))
      else convert_pairs L out_dir convert_all pairs st processed_files)"

text \<open>
  The part of \<^verbatim>\<open>main\<close> from the scan to the end of that loop (lines 174 to 180), given
  the answers to the prompts: the source directory, the destination directory and the
  convert-all choice.
\<close>

definition main_convert ::
  "collab \<Rightarrow> nat \<Rightarrow> state \<Rightarrow> path \<Rightarrow> path \<Rightarrow> bool
     \<Rightarrow> (unit outcome \<times> state \<times> path set) option" where
  "main_convert L fuel st source_dir out_dir convert_all =
     (case process_directory fuel (filesys st) source_dir False of
        None \<Rightarrow> None
      | Some pairs \<Rightarrow> Some (convert_pairs L out_dir convert_all pairs st {}))"

text \<open>
  The prompts read the standard input. Every prompt of the source is
  \<^verbatim>\<open>input(...).strip()\<close>, and the model takes the results of these calls as its input: the
  list of the answers still to come, each a line as typed with the whitespace at both
  ends removed. \<^verbatim>\<open>input\<close> raises \<^verbatim>\<open>EOFError\<close> when there is none. Each prompt asks again
  until the answer is acceptable: an existing directory, or \<^verbatim>\<open>yes\<close> or \<^verbatim>\<open>no\<close>.
\<close>

fun get_source_directory :: "filesystem \<Rightarrow> string list \<Rightarrow> path outcome \<times> string list" where
  "get_source_directory fs [] = (Raised EOFError, [])"
| "get_source_directory fs (source_dir # rest) =
     (if \<not> os_path_isdir fs source_dir then get_source_directory fs rest
      else (Returned source_dir, rest))"

fun get_destination_directory :: "filesystem \<Rightarrow> string list \<Rightarrow> path outcome \<times> string list" where
  "get_destination_directory fs [] = (Raised EOFError, [])"
| "get_destination_directory fs (dest_dir # rest) =
     (if \<not> os_path_isdir fs dest_dir then get_destination_directory fs rest
      else (Returned dest_dir, rest))"

fun ask_convert_all :: "string list \<Rightarrow> bool outcome \<times> string list" where
  "ask_convert_all [] = (Raised EOFError, [])"
| "ask_convert_all (answer # rest) =
     (if lower answer \<in> set [''yes'', ''no'']
      then (Returned (lower answer = ''yes''), rest)
      else ask_convert_all rest)"

text \<open>\<^verbatim>\<open>main\<close> up to the end of the loop (lines 170 to 180).\<close>

definition main ::
  "collab \<Rightarrow> nat \<Rightarrow> state \<Rightarrow> string list \<Rightarrow> (unit outcome \<times> state \<times> path set) option" where
  "main L fuel st stdin =
     (case get_source_directory (filesys st) stdin of
        (Raised e, rest1) \<Rightarrow> Some (Raised e, st, {})
      | (Returned source_dir, rest1) \<Rightarrow>
          (case get_destination_directory (filesys st) rest1 of
             (Raised e, rest2) \<Rightarrow> Some (Raised e, st, {})
           | (Returned out_dir, rest2) \<Rightarrow>
               (case ask_convert_all rest2 of
                  (Raised e, rest3) \<Rightarrow> Some (Raised e, st, {})
                | (Returned convert_all, rest3) \<Rightarrow>
                    main_convert L fuel st source_dir out_dir convert_all)))"

section \<open>Scenarios\<close>

text \<open>
  Concrete inputs for the statements below. \<open>test_collab bad\<close> stands in for the codecs.
  A HEIC file that is not empty decodes to its own bytes as the image, with no metadata
  block, and an empty file does not decode. The JPEG
  writer raises \<^verbatim>\<open>TypeError\<close> before it writes anything, as Pillow does when \<^verbatim>\<open>exif\<close> is not
  a bytes object, and \<^verbatim>\<open>Image.save\<close> removes a file it created. A file has no XMP
  properties before the write, and writing the metadata appends the low byte of
  \<^verbatim>\<open>MicroVideoOffset\<close> to the file, except on the file whose bytes are \<open>bad\<close>, where the
  write raises. \<open>test_collab_encoding\<close> is the same with a JPEG writer that accepts its
  arguments and puts a JPEG start marker before the image bytes.
\<close>

definition run_state :: "filesystem \<Rightarrow> state" where
  "run_state f = \<lparr>filesys = f, xmp_prefixes = {}\<rparr>"

definition test_collab :: "bytes \<Rightarrow> collab" where
  "test_collab bad =
     \<lparr>heif_read = (\<lambda>b. if b = [] then None else Some (b, None)),
      jpeg_encode = (\<lambda>img metadata. EncoderRaised TypeError []),
      save_cleanup = True,
      xmp_read = (\<lambda>b. Some Map.empty),
      xmp_write = (\<lambda>b m. if b = bad then None
                          else case m ''Xmp.GCamera.MicroVideoOffset'' of
                                 Some (XmpInt n) \<Rightarrow> Some (b @ [word_of_int n])
                               | _ \<Rightarrow> Some b),
      written_through = (\<lambda>b. b)\<rparr>"


text \<open>A photo with two candidate videos beside it.\<close>

definition fs_two_videos :: filesystem where
  "fs_two_videos = [''a.jpg'' \<mapsto> File [1], ''a.mov'' \<mapsto> File [2], ''a.mp4'' \<mapsto> File [3]]"

text \<open>
  A source directory \<^verbatim>\<open>d\<close> with one pair, a photo of three bytes and the given video,
  and an empty directory \<^verbatim>\<open>out\<close>.
\<close>

definition fs_pair :: "bytes \<Rightarrow> filesystem" where
  "fs_pair video =
     [''d'' \<mapsto> Dir [''a.jpg'', ''a.mov''], ''out'' \<mapsto> Dir [],
      ''d/a.jpg'' \<mapsto> File [1, 2, 3], ''d/a.mov'' \<mapsto> File video]"

text \<open>A video of exactly 10 MiB, and one of 10 MiB and one byte.\<close>

definition video_10_mib :: bytes where
  "video_10_mib = replicate (10 * 1024 * 1024) 0"

definition video_over_10_mib :: bytes where
  "video_over_10_mib = replicate (10 * 1024 * 1024 + 1) 0"

text \<open>A source directory with two pairs.\<close>

definition fs_two_pairs :: filesystem where
  "fs_two_pairs =
     [''d'' \<mapsto> Dir [''a.jpg'', ''a.mov'', ''b.jpg'', ''b.mov''], ''out'' \<mapsto> Dir [],
      ''d/a.jpg'' \<mapsto> File [1, 2, 3], ''d/a.mov'' \<mapsto> File [9, 8],
      ''d/b.jpg'' \<mapsto> File [4], ''d/b.mov'' \<mapsto> File [5]]"

text \<open>
  A HEIC photo with an MP4 video beside it; and a HEIC photo with a stale JPEG of the
  same base name beside it, next to an empty file named as a HEIC photo.
\<close>

definition fs_heic :: filesystem where
  "fs_heic =
     [''d'' \<mapsto> Dir [''img2.heic'', ''img2.mp4''], ''out'' \<mapsto> Dir [],
      ''d/img2.heic'' \<mapsto> File [4, 5], ''d/img2.mp4'' \<mapsto> File [9, 8]]"


text \<open>A pair one level below the root.\<close>

definition fs_nested :: filesystem where
  "fs_nested =
     [''root'' \<mapsto> Dir [''sub''], ''root/sub'' \<mapsto> Dir [''b.jpg'', ''b.mov''],
      ''root/sub/b.jpg'' \<mapsto> File [1], ''root/sub/b.mov'' \<mapsto> File [2]]"

section \<open>Supporting lemmas\<close>

lemmas path_defs = os_path_join_def basename_def pathhead_def rstrip_sep_def os_path_split_def
  dirname_def splitext_def is_sep_def is_dot_def makedirs_split_def

lemmas fs_defs = os_path_exists_def os_path_isdir_def os_path_isfile_def os_path_getsize_def
  open_rb_def open_wb_def link_entry_def parent_error_def write_close_def file_content_def
  os_mkdir_def mkdir_leaf_def

subsection \<open>Paths\<close>











lemma endswith_last: "endswith s suf \<Longrightarrow> suf \<noteq> [] \<Longrightarrow> last s = last suf"
proof -
  assume e: "endswith s suf" and ne: "suf \<noteq> []"
  from e have "s = take (length s - length suf) s @ suf"
    by (metis append_take_drop_id endswith_def)
  with ne show ?thesis by (metis last_appendR)
qed


lemma jpg_not_heic: "\<not> endswith (lower (root @ ''.jpg'')) ''.heic''"
proof
  assume "endswith (lower (root @ ''.jpg'')) ''.heic''"
  then have "last (lower (root @ ''.jpg'')) = last ''.heic''"
    by (rule endswith_last) simp
  then show False by (simp add: lower_def lower_char_def)
qed

text \<open>A photo that ends in \<^verbatim>\<open>.heic\<close> never passes \<open>validate_media\<close>.\<close>

lemma validate_media_rejects_heic:
  "endswith (lower photo_path) ''.heic'' \<Longrightarrow> \<not> validate_media fs photo_path video_path"
proof -
  assume h: "endswith (lower photo_path) ''.heic''"
  then have "last (lower photo_path) = CHR ''c''"
    using endswith_last [of "lower photo_path" "''.heic''"] by simp
  then have "\<not> endswith (lower photo_path) ''.jpg''" and "\<not> endswith (lower photo_path) ''.jpeg''"
    using endswith_last [of "lower photo_path" "''.jpg''"]
      endswith_last [of "lower photo_path" "''.jpeg''"] by auto
  then show ?thesis by (simp add: validate_media_def)
qed

lemma splitext_a_jpg: "splitext ''a.jpg'' = (''a'', ''.jpg'')"
  by (simp add: splitext_def basename_def pathhead_def is_sep_def is_dot_def Let_def)

lemma splitext_d_b_jpeg: "splitext ''d/b.jpeg'' = (''d/b'', ''.jpeg'')"
  by (simp add: splitext_def basename_def pathhead_def is_sep_def is_dot_def Let_def)

subsection \<open>The probe loop of the matcher\<close>

lemma first_existing_none:
  "list_all (\<lambda>ext. \<not> os_path_exists fs (base @ ext)) exts \<Longrightarrow> first_existing fs base exts = []"
  by (induction exts) auto

lemma first_existing_at:
  "i < length exts \<Longrightarrow> os_path_exists fs (base @ exts ! i)
   \<Longrightarrow> (\<forall>j<i. \<not> os_path_exists fs (base @ exts ! j))
   \<Longrightarrow> first_existing fs base exts = base @ exts ! i"
proof (induction exts arbitrary: i)
  case Nil
  then show ?case by simp
next
  case (Cons ext exts)
  show ?case
  proof (cases i)
    case 0
    with Cons.prems show ?thesis by simp
  next
    case (Suc k)
    with Cons.prems have head: "\<not> os_path_exists fs (base @ ext)" by auto
    from Suc Cons.prems have "first_existing fs base exts = base @ exts ! k"
      by (intro Cons.IH) auto
    with head Suc show ?thesis by simp
  qed
qed

subsection \<open>Writes leave other regular files alone\<close>

lemma link_entry_keeps_file: "fs q = Some (File b) \<Longrightarrow> link_entry fs p q = Some (File b)"
  by (auto simp: link_entry_def split: option.splits node.splits)



lemma os_mkdir_keeps_file: "fs q = Some (File b) \<Longrightarrow> snd (os_mkdir fs name) q = Some (File b)"
  by (auto simp: os_mkdir_def os_path_exists_def link_entry_keeps_file split: option.splits)

lemma mkdir_leaf_keeps_file:
  "fs q = Some (File b) \<Longrightarrow> snd (mkdir_leaf fs name exist_ok) q = Some (File b)"
  using os_mkdir_keeps_file [of fs q b name]
  by (auto simp: mkdir_leaf_def split: prod.splits outcome.splits)

lemma os_makedirs_keeps_file:
  "fs q = Some (File b) \<Longrightarrow> snd (os_makedirs fs name exist_ok) q = Some (File b)"
proof (induction fs name exist_ok rule: os_makedirs.induct)
  case (1 fs name exist_ok)
  show ?case
  proof (cases "fst (makedirs_split name) \<noteq> [] \<and> snd (makedirs_split name) \<noteq> []
         \<and> \<not> os_path_exists fs (fst (makedirs_split name))")
    case False
    then have "os_makedirs fs name exist_ok = mkdir_leaf fs name exist_ok"
      by (subst os_makedirs.simps) auto
    with "1.prems" show ?thesis by (simp add: mkdir_leaf_keeps_file)
  next
    case True
    obtain r fs1 where above: "os_makedirs fs (fst (makedirs_split name)) exist_ok = (r, fs1)"
      by (cases "os_makedirs fs (fst (makedirs_split name)) exist_ok")
    with True "1.IH" "1.prems" have kept: "fs1 q = Some (File b)" by auto
    then have leaf: "snd (mkdir_leaf fs1 name exist_ok) q = Some (File b)"
      by (rule mkdir_leaf_keeps_file)
    have "os_makedirs fs name exist_ok = (Raised FileNotFoundError, fs1) \<or> snd (os_makedirs fs name exist_ok) = fs1
        \<or> os_makedirs fs name exist_ok = mkdir_leaf fs1 name exist_ok"
      using True above by (subst (1 2 3) os_makedirs.simps) (auto split: outcome.splits)
    with kept leaf show ?thesis by auto
  qed
qed

lemma open_wb_keeps_file:
  "fs q = Some (File b) \<Longrightarrow> q \<noteq> p \<Longrightarrow> snd (open_wb fs p) q = Some (File b)"
  by (auto simp: open_wb_def link_entry_keeps_file split: option.splits)

subsection \<open>Merging into a path that is neither the photo nor the video\<close>

text \<open>
  When the output path differs from both input paths, the output holds the bytes of the
  photo followed by the bytes of the video, the inputs are as before, and the offset
  handed to \<open>add_xmp_metadata\<close> is the size of the video.
\<close>

lemma merge_files_distinct:
  assumes photo: "fs photo_path = Some (File p)"
    and video: "fs video_path = Some (File v)"
    and not_photo: "os_path_join output_path (basename photo_path) \<noteq> photo_path"
    and not_video: "os_path_join output_path (basename photo_path) \<noteq> video_path"
    and merged: "merge_files L fs photo_path video_path output_path = (Returned merged, fs')"
  shows "merged = os_path_join output_path (basename photo_path)
       \<and> fs' merged = Some (File (p @ v))
       \<and> fs' photo_path = Some (File p)
       \<and> fs' video_path = Some (File v)"
proof -
  let ?out = "os_path_join output_path (basename photo_path)"
  obtain r1 fs1 where mk: "os_makedirs fs (dirname ?out) True = (r1, fs1)"
    by (cases "os_makedirs fs (dirname ?out) True")
  obtain r2 fs2 where op: "open_wb fs1 ?out = (r2, fs2)"
    by (cases "open_wb fs1 ?out")
  have p1: "fs1 photo_path = Some (File p)" and v1: "fs1 video_path = Some (File v)"
    using os_makedirs_keeps_file [of fs photo_path p "dirname ?out" True]
      os_makedirs_keeps_file [of fs video_path v "dirname ?out" True] photo video mk by simp_all
  have p2: "fs2 photo_path = Some (File p)" and v2: "fs2 video_path = Some (File v)"
    using open_wb_keeps_file [of fs1 photo_path p ?out] open_wb_keeps_file [of fs1 video_path v ?out]
      p1 v1 op not_photo not_video by auto
  from merged mk op p2 v2 not_photo not_video
  have "merged = ?out \<and> fs' = (fs2(?out \<mapsto> File (written_through L p)))(?out \<mapsto> File (p @ v))"
    by (auto simp: merge_files_def Let_def open_rb_def file_content_def write_close_def
        split: outcome.splits)
  with p2 v2 not_photo not_video show ?thesis by auto
qed

lemma convert_distinct:
  assumes photo: "filesys st photo_path = Some (File p)"
    and video: "filesys st video_path = Some (File v)"
    and jpeg: "\<not> endswith (lower photo_path) ''.heic''"
    and not_photo: "os_path_join output_path (basename photo_path) \<noteq> photo_path"
    and not_video: "os_path_join output_path (basename photo_path) \<noteq> video_path"
    and merged: "merge_files L (filesys st) photo_path video_path output_path = (Returned merged, fs')"
  shows "convert L st photo_path video_path output_path True =
           (case add_xmp_metadata L (st\<lparr>filesys := fs'\<rparr>) merged (int (length v)) of
              (Raised e, st3) \<Rightarrow> (Raised e, st3)
            | (Returned u, st3) \<Rightarrow> (Returned None, st3))"
proof -
  from merge_files_distinct [OF photo video not_photo not_video merged]
  have "fs' merged = Some (File (p @ v))" and "fs' photo_path = Some (File p)" by blast+
  then have "os_path_getsize fs' merged = Returned (int (length p) + int (length v))"
    and "os_path_getsize fs' photo_path = Returned (int (length p))"
    by (simp_all add: os_path_getsize_def)
  with jpeg merged show ?thesis by (simp add: convert_def)
qed

subsection \<open>The size gate\<close>

lemma convert_all_never_skips:
  "fst (convert L st photo_path video_path output_path True) \<noteq> Returned (Some False)"
  by (simp add: convert_def split: prod.splits outcome.splits)

lemma size_gate_cases:
  "size_gate fs video_path =
     (case fs video_path of
        None \<Rightarrow> Returned True
      | Some (File b) \<Rightarrow> Returned (10 * 1024 * 1024 < int (length b))
      | Some (Dir ns) \<Rightarrow> Returned (10 * 1024 * 1024 < dir_st_size))"
  by (simp add: size_gate_def os_path_exists_def os_path_getsize_def video_size_limit_mb_def
      split: option.splits node.splits)

lemma convert_gate_closed:
  "size_gate (filesys st) video_path = Returned True
   \<Longrightarrow> convert L st photo_path video_path output_path False = (Returned (Some False), st)"
  by (simp add: convert_def)

lemma convert_gate_open:
  "size_gate (filesys st) video_path = Returned False
   \<Longrightarrow> convert L st photo_path video_path output_path False
       = convert L st photo_path video_path output_path True"
  by (simp add: convert_def)

subsection \<open>The loop over the pairs\<close>

lemma convert_pairs_append:
  "convert_pairs L out_dir convert_all (before @ after) st processed =
     (case convert_pairs L out_dir convert_all before st processed of
        (Returned u, st1, processed1) \<Rightarrow> convert_pairs L out_dir convert_all after st1 processed1
      | (Raised e, rest) \<Rightarrow> (Raised e, rest))"
proof (induction before arbitrary: st processed)
  case Nil
  then show ?case by simp
next
  case (Cons pair before)
  show ?case
  proof (cases "validate_media (filesys st) (fst pair) (snd pair)")
    case False
    then show ?thesis by (simp add: Cons.IH)
  next
    case True
    then show ?thesis
      by (cases "convert L st (fst pair) (snd pair) out_dir convert_all")
         (simp add: Cons.IH split: outcome.splits)
  qed
qed

text \<open>The outcome and the final state of the loop do not depend on the set it started with.\<close>

lemma convert_pairs_whatever_processed:
  "fst (convert_pairs L out_dir convert_all pairs st processed)
     = fst (convert_pairs L out_dir convert_all pairs st processed')
   \<and> fst (snd (convert_pairs L out_dir convert_all pairs st processed))
     = fst (snd (convert_pairs L out_dir convert_all pairs st processed'))"
proof (induction pairs arbitrary: st processed processed')
  case Nil
  then show ?case by simp
next
  case (Cons pair pairs)
  show ?case
  proof (cases "validate_media (filesys st) (fst pair) (snd pair)")
    case False
    then show ?thesis using Cons.IH by simp
  next
    case True
    obtain r st' where c: "convert L st (fst pair) (snd pair) out_dir convert_all = (r, st')"
      by (cases "convert L st (fst pair) (snd pair) out_dir convert_all")
    show ?thesis
    proof (cases r)
      case (Raised e)
      with True c show ?thesis by simp
    next
      case (Returned x)
      with True c show ?thesis
        using Cons.IH [of st' "insert (snd pair) (insert (fst pair) processed)"
            "insert (snd pair) (insert (fst pair) processed')"]
        by simp
    qed
  qed
qed

text \<open>A call of \<open>convert\<close> that returns \<^verbatim>\<open>False\<close> leaves the state as it was.\<close>

lemma convert_skip_unchanged:
  "convert L st photo_path video_path output_path convert_all = (Returned (Some False), st')
   \<Longrightarrow> st' = st"
proof -
  assume skipped: "convert L st photo_path video_path output_path convert_all = (Returned (Some False), st')"
  then have off: "\<not> convert_all"
    using convert_all_never_skips [of L st photo_path video_path output_path] by auto
  have "size_gate (filesys st) video_path = Returned True"
  proof (rule ccontr)
    assume "size_gate (filesys st) video_path \<noteq> Returned True"
    then have "size_gate (filesys st) video_path = Returned False"
      by (auto simp: size_gate_cases split: option.splits node.splits)
    with skipped off show False
      using convert_all_never_skips [of L st photo_path video_path output_path]
      by (simp add: convert_gate_open)
  qed
  with off skipped show ?thesis by (simp add: convert_gate_closed)
qed

text \<open>For a photo that does not end in \<^verbatim>\<open>.heic\<close>, \<open>convert\<close> past its gate is \<open>mux_and_tag\<close>.\<close>

lemma convert_jpeg_photo:
  "\<not> endswith (lower photo_path) ''.heic''
   \<Longrightarrow> convert L st photo_path video_path output_path True
       = mux_and_tag L st photo_path video_path output_path"
  by (simp add: convert_def mux_and_tag_def split: prod.splits outcome.splits)

subsection \<open>The scan\<close>

text \<open>
  A walk that finishes within some fuel gives the same result with any more fuel, and so
  does the scan: the fuel in the statements below is enough, not special.
\<close>

lemma those_map_defined:
  "those (map f xs) = Some ys \<Longrightarrow> x \<in> set xs \<Longrightarrow> f x \<noteq> None"
  by (induction xs arbitrary: ys) (auto split: option.splits)

lemma os_walk_more_fuel:
  "os_walk n fs top_dir = Some walked \<Longrightarrow> os_walk (Suc n) fs top_dir = Some walked"
proof (induction n arbitrary: top_dir walked)
  case 0
  then show ?case by simp
next
  case (Suc n)
  show ?case
  proof (cases "fs top_dir")
    case None
    with Suc.prems show ?thesis by simp
  next
    case (Some nd)
    show ?thesis
    proof (cases nd)
      case (File b)
      with Some Suc.prems show ?thesis by simp
    next
      case (Dir names)
      let ?dirs = "filter (\<lambda>name. os_path_isdir fs (os_path_join top_dir name)) names"
      let ?nondirs = "filter (\<lambda>name. \<not> os_path_isdir fs (os_path_join top_dir name)) names"
      have step: "os_walk (Suc k) fs top_dir =
          (case those (map (\<lambda>name. os_walk k fs (os_path_join top_dir name)) ?dirs) of
             None \<Rightarrow> None
           | Some below \<Rightarrow> Some ((top_dir, ?dirs, ?nondirs) # concat below))" for k
        using Some Dir by (simp add: Let_def)
      from Suc.prems obtain below
        where below: "those (map (\<lambda>name. os_walk n fs (os_path_join top_dir name)) ?dirs) = Some below"
        unfolding step [of n] by (auto split: option.splits)
      have same: "map (\<lambda>name. os_walk (Suc n) fs (os_path_join top_dir name)) ?dirs
            = map (\<lambda>name. os_walk n fs (os_path_join top_dir name)) ?dirs"
      proof (rule map_cong [OF refl])
        fix name assume "name \<in> set ?dirs"
        with below have "os_walk n fs (os_path_join top_dir name) \<noteq> None"
          by (rule those_map_defined)
        then obtain w where w: "os_walk n fs (os_path_join top_dir name) = Some w" by blast
        then have "os_walk (Suc n) fs (os_path_join top_dir name) = Some w" by (rule Suc.IH)
        with w show "os_walk (Suc n) fs (os_path_join top_dir name)
                     = os_walk n fs (os_path_join top_dir name)" by simp
      qed
      have "os_walk (Suc (Suc n)) fs top_dir =
          (case those (map (\<lambda>name. os_walk (Suc n) fs (os_path_join top_dir name)) ?dirs) of
             None \<Rightarrow> None
           | Some below \<Rightarrow> Some ((top_dir, ?dirs, ?nondirs) # concat below))"
        by (rule step)
      also have "\<dots> =
          (case those (map (\<lambda>name. os_walk n fs (os_path_join top_dir name)) ?dirs) of
             None \<Rightarrow> None
           | Some below \<Rightarrow> Some ((top_dir, ?dirs, ?nondirs) # concat below))"
        by (simp only: same)
      also have "\<dots> = os_walk (Suc n) fs top_dir"
        by (rule step [symmetric])
      finally show ?thesis using Suc.prems by simp
    qed
  qed
qed

lemma os_walk_fuel_mono:
  "os_walk n fs top_dir = Some walked \<Longrightarrow> n \<le> m \<Longrightarrow> os_walk m fs top_dir = Some walked"
proof (induction m)
  case 0
  then show ?case by simp
next
  case (Suc m)
  show ?case
  proof (cases "n \<le> m")
    case True
    with Suc have "os_walk m fs top_dir = Some walked" by simp
    then show ?thesis by (rule os_walk_more_fuel)
  next
    case False
    with Suc.prems have "n = Suc m" by simp
    with Suc.prems show ?thesis by simp
  qed
qed

lemma process_directory_fuel_mono:
  "process_directory n fs file_dir recurse = Some pairs \<Longrightarrow> n \<le> m
   \<Longrightarrow> process_directory m fs file_dir recurse = Some pairs"
proof -
  assume found: "process_directory n fs file_dir recurse = Some pairs" and more: "n \<le> m"
  then obtain walked where w: "os_walk n fs file_dir = Some walked"
    by (auto simp: process_directory_def split: option.splits)
  from w more have "os_walk m fs file_dir = Some walked" by (rule os_walk_fuel_mono)
  with w found show ?thesis by (simp add: process_directory_def)
qed

text \<open>The scan does not depend on its \<open>recurse\<close> argument.\<close>

lemma process_directory_ignores_recurse:
  "process_directory fuel fs file_dir recurse = process_directory fuel fs file_dir recurse'"
  by (simp add: process_directory_def)

subsection \<open>The scenarios, evaluated\<close>

lemma fs_pair_lookup:
  "fs_pair v ''d'' = Some (Dir [''a.jpg'', ''a.mov''])"
  "fs_pair v ''out'' = Some (Dir [])"
  "fs_pair v ''d/a.jpg'' = Some (File [1, 2, 3])"
  "fs_pair v ''d/a.mov'' = Some (File v)"
  by (simp_all add: fs_pair_def)

lemma validate_pair: "validate_media (fs_pair v) ''d/a.jpg'' ''d/a.mov''"
  by (simp add: validate_media_def os_path_exists_def fs_pair_lookup endswith_def lower_def
      lower_char_def)

lemma scan_pair: "process_directory (Suc 0) (fs_pair v) ''d'' False = Some [(''d/a.jpg'', ''d/a.mov'')]"
proof -
  have j: "os_path_join ''d'' ''a.jpg'' = ''d/a.jpg''" "os_path_join ''d'' ''a.mov'' = ''d/a.mov''"
    by (simp_all add: path_defs)
  have s: "splitext ''a.jpg'' = (''a'', ''.jpg'')" "splitext ''a.mov'' = (''a'', ''.mov'')"
    "splitext ''d/a.jpg'' = (''d/a'', ''.jpg'')"
    by (simp_all add: path_defs Let_def)
  have w: "os_walk (Suc 0) (fs_pair v) ''d'' = Some [(''d'', [], [''a.jpg'', ''a.mov''])]"
    by (simp add: fs_pair_lookup j os_path_isdir_def)
  show ?thesis
    unfolding process_directory_def w
    by (simp add: j s os_path_isfile_def fs_pair_lookup lower_def lower_char_def photo_exts_def
        matching_video_def video_exts_def os_path_exists_def)
qed

text \<open>The destination is the directory of the photo: the output path is the photo itself.\<close>

lemma merge_into_source_directory:
  "merge_files L (fs_pair [9, 8]) ''d/a.jpg'' ''d/a.mov'' ''d''
   = (Returned ''d/a.jpg'', (fs_pair [9, 8])(''d/a.jpg'' \<mapsto> File [9, 8]))"
proof -
  have j: "os_path_join ''d'' (basename ''d/a.jpg'') = ''d/a.jpg''" by (simp add: path_defs)
  have d: "dirname ''d/a.jpg'' = ''d''" and b: "basename ''d/a.jpg'' = ''a.jpg''"
    by (simp_all add: path_defs)
  have m: "os_makedirs (fs_pair [9, 8]) ''d'' True = (Returned (), fs_pair [9, 8])"
    by (simp add: os_makedirs.simps [of _ "''d''"] path_defs fs_defs fs_pair_lookup)
  have l: "link_entry (fs_pair [9, 8]) ''d/a.jpg'' = fs_pair [9, 8]"
    by (simp add: link_entry_def d b fs_pair_lookup)
  have o: "open_wb (fs_pair [9, 8]) ''d/a.jpg''
           = (Returned (), (fs_pair [9, 8])(''d/a.jpg'' \<mapsto> File []))"
    by (simp add: open_wb_def os_path_isdir_def parent_error_def d l fs_pair_lookup)
  show ?thesis
    unfolding merge_files_def j d Let_def m
    by (simp add: o open_rb_def file_content_def write_close_def fs_pair_lookup)
qed

lemma scan_heic:
  "process_directory (Suc 0) fs_heic ''d'' False = Some [(''d/img2.heic'', ''d/img2.mp4'')]"
proof -
  have j: "os_path_join ''d'' ''img2.heic'' = ''d/img2.heic''"
    "os_path_join ''d'' ''img2.mp4'' = ''d/img2.mp4''"
    by (simp_all add: path_defs)
  have s: "splitext ''img2.heic'' = (''img2'', ''.heic'')" "splitext ''img2.mp4'' = (''img2'', ''.mp4'')"
    "splitext ''d/img2.heic'' = (''d/img2'', ''.heic'')"
    by (simp_all add: path_defs Let_def)
  have w: "os_walk (Suc 0) fs_heic ''d'' = Some [(''d'', [], [''img2.heic'', ''img2.mp4''])]"
    by (simp add: fs_heic_def j os_path_isdir_def)
  show ?thesis
    unfolding process_directory_def w
    by (simp add: j s os_path_isfile_def fs_heic_def lower_def lower_char_def photo_exts_def
        matching_video_def video_exts_def os_path_exists_def)
qed

lemma fs_nested_lookup:
  "fs_nested ''root'' = Some (Dir [''sub''])"
  "fs_nested ''root/sub'' = Some (Dir [''b.jpg'', ''b.mov''])"
  "fs_nested ''root/sub/b.jpg'' = Some (File [1])"
  "fs_nested ''root/sub/b.mov'' = Some (File [2])"
  "fs_nested ''root/sub/b.mp4'' = None"
  by (simp_all add: fs_nested_def)

lemma scan_nested:
  "process_directory (Suc (Suc 0)) fs_nested ''root'' recurse
   = Some [(''root/sub/b.jpg'', ''root/sub/b.mov'')]"
proof -
  have j: "os_path_join ''root'' ''sub'' = ''root/sub''"
    "os_path_join ''root/sub'' ''b.jpg'' = ''root/sub/b.jpg''"
    "os_path_join ''root/sub'' ''b.mov'' = ''root/sub/b.mov''"
    by (simp_all add: path_defs)
  have s: "splitext ''b.jpg'' = (''b'', ''.jpg'')" "splitext ''b.mov'' = (''b'', ''.mov'')"
    "splitext ''root/sub/b.jpg'' = (''root/sub/b'', ''.jpg'')"
    by (simp_all add: path_defs Let_def)
  have below: "os_walk (Suc 0) fs_nested ''root/sub'' = Some [(''root/sub'', [], [''b.jpg'', ''b.mov''])]"
    by (simp add: fs_nested_lookup j os_path_isdir_def)
  have w: "os_walk (Suc (Suc 0)) fs_nested ''root''
           = Some [(''root'', [''sub''], []), (''root/sub'', [], [''b.jpg'', ''b.mov''])]"
    unfolding os_walk.simps(2) [of "Suc 0"]
    by (simp add: fs_nested_lookup j os_path_isdir_def below del: os_walk.simps)
  show ?thesis
    unfolding process_directory_def w
    by (simp add: j s os_path_isfile_def fs_nested_lookup lower_def lower_char_def photo_exts_def
        matching_video_def video_exts_def os_path_exists_def)
qed

lemma fs_two_pairs_lookup:
  "fs_two_pairs ''d'' = Some (Dir [''a.jpg'', ''a.mov'', ''b.jpg'', ''b.mov''])"
  "fs_two_pairs ''out'' = Some (Dir [])"
  "fs_two_pairs ''d/a.jpg'' = Some (File [1, 2, 3])"
  "fs_two_pairs ''d/a.mov'' = Some (File [9, 8])"
  "fs_two_pairs ''d/b.jpg'' = Some (File [4])"
  "fs_two_pairs ''d/b.mov'' = Some (File [5])"
  "fs_two_pairs ''d/c.mov'' = None"
  "fs_two_pairs ''out/a.jpg'' = None"
  "fs_two_pairs ''out/b.jpg'' = None"
  "fs_two_pairs ''nowhere'' = None"
  by (simp_all add: fs_two_pairs_def)

text \<open>Merging into the existing directory \<^verbatim>\<open>out\<close>.\<close>

lemma makedirs_out: "fs ''out'' = Some (Dir ns) \<Longrightarrow> os_makedirs fs ''out'' True = (Returned (), fs)"
  by (simp add: os_makedirs.simps [of _ "''out''"] path_defs fs_defs)

lemma merge_first_pair:
  "merge_files L fs_two_pairs ''d/a.jpg'' ''d/a.mov'' ''out''
   = (Returned ''out/a.jpg'',
      fs_two_pairs(''out'' \<mapsto> Dir [''a.jpg''], ''out/a.jpg'' \<mapsto> File [1, 2, 3, 9, 8]))"
proof -
  have j: "os_path_join ''out'' (basename ''d/a.jpg'') = ''out/a.jpg''" by (simp add: path_defs)
  have d: "dirname ''out/a.jpg'' = ''out''" and b: "basename ''out/a.jpg'' = ''a.jpg''"
    by (simp_all add: path_defs)
  have l: "link_entry fs_two_pairs ''out/a.jpg'' = fs_two_pairs(''out'' \<mapsto> Dir [''a.jpg''])"
    by (simp add: link_entry_def d b fs_two_pairs_lookup)
  have m: "os_makedirs fs_two_pairs ''out'' True = (Returned (), fs_two_pairs)"
    using makedirs_out [of fs_two_pairs "[]"] by (simp add: fs_two_pairs_lookup)
  have o: "open_wb fs_two_pairs ''out/a.jpg''
           = (Returned (), fs_two_pairs(''out'' \<mapsto> Dir [''a.jpg''], ''out/a.jpg'' \<mapsto> File []))"
    by (simp add: open_wb_def os_path_isdir_def parent_error_def d l fs_two_pairs_lookup)
  show ?thesis
    unfolding merge_files_def j d Let_def m
    by (simp add: o open_rb_def file_content_def write_close_def fs_two_pairs_lookup)
qed

lemma merge_second_pair:
  "merge_files L fs_two_pairs ''d/b.jpg'' ''d/b.mov'' ''out''
   = (Returned ''out/b.jpg'',
      fs_two_pairs(''out'' \<mapsto> Dir [''b.jpg''], ''out/b.jpg'' \<mapsto> File [4, 5]))"
proof -
  have j: "os_path_join ''out'' (basename ''d/b.jpg'') = ''out/b.jpg''" by (simp add: path_defs)
  have d: "dirname ''out/b.jpg'' = ''out''" and b: "basename ''out/b.jpg'' = ''b.jpg''"
    by (simp_all add: path_defs)
  have l: "link_entry fs_two_pairs ''out/b.jpg'' = fs_two_pairs(''out'' \<mapsto> Dir [''b.jpg''])"
    by (simp add: link_entry_def d b fs_two_pairs_lookup)
  have m: "os_makedirs fs_two_pairs ''out'' True = (Returned (), fs_two_pairs)"
    using makedirs_out [of fs_two_pairs "[]"] by (simp add: fs_two_pairs_lookup)
  have o: "open_wb fs_two_pairs ''out/b.jpg''
           = (Returned (), fs_two_pairs(''out'' \<mapsto> Dir [''b.jpg''], ''out/b.jpg'' \<mapsto> File []))"
    by (simp add: open_wb_def os_path_isdir_def parent_error_def d l fs_two_pairs_lookup)
  show ?thesis
    unfolding merge_files_def j d Let_def m
    by (simp add: o open_rb_def file_content_def write_close_def fs_two_pairs_lookup)
qed

lemma validate_two_pairs:
  "validate_media fs_two_pairs ''d/a.jpg'' ''d/a.mov''"
  "validate_media fs_two_pairs ''d/b.jpg'' ''d/b.mov''"
  by (simp_all add: validate_media_def os_path_exists_def fs_two_pairs_lookup endswith_def
      lower_def lower_char_def)

text \<open>The metadata write raises on the first merged file and succeeds on the second.\<close>

lemma first_convert_raises:
  "convert (test_collab [1, 2, 3, 9, 8]) (run_state fs_two_pairs) ''d/a.jpg'' ''d/a.mov'' ''out'' False
   = (Raised MetadataError,
      \<lparr>filesys = fs_two_pairs(''out'' \<mapsto> Dir [''a.jpg''], ''out/a.jpg'' \<mapsto> File [1, 2, 3, 9, 8]),
       xmp_prefixes = {''GCamera''}\<rparr>)"
proof -
  have gate: "size_gate fs_two_pairs ''d/a.mov'' = Returned False"
    by (simp add: size_gate_cases fs_two_pairs_lookup)
  have jpeg: "\<not> endswith (lower ''d/a.jpg'') ''.heic''"
    by (simp add: endswith_def lower_def lower_char_def)
  show ?thesis
    by (simp add: convert_def run_state_def gate jpeg merge_first_pair os_path_getsize_def
        fs_two_pairs_lookup add_xmp_metadata_def register_namespace_def test_collab_def)
qed

lemma second_convert_returns:
  "convert (test_collab [1, 2, 3, 9, 8]) (run_state fs_two_pairs) ''d/b.jpg'' ''d/b.mov'' ''out'' False
   = (Returned None,
      \<lparr>filesys = fs_two_pairs(''out'' \<mapsto> Dir [''b.jpg''], ''out/b.jpg'' \<mapsto> File [4, 5, 1]),
       xmp_prefixes = {''GCamera''}\<rparr>)"
proof -
  have gate: "size_gate fs_two_pairs ''d/b.mov'' = Returned False"
    by (simp add: size_gate_cases fs_two_pairs_lookup)
  have jpeg: "\<not> endswith (lower ''d/b.jpg'') ''.heic''"
    by (simp add: endswith_def lower_def lower_char_def)
  show ?thesis
    by (simp add: convert_def run_state_def gate jpeg merge_second_pair os_path_getsize_def
        fs_two_pairs_lookup add_xmp_metadata_def register_namespace_def test_collab_def
        set_micro_video_def)
qed

lemma first_pair_raises:
  "convert_pairs (test_collab [1, 2, 3, 9, 8]) ''out'' False
     [(''d/a.jpg'', ''d/a.mov''), (''d/b.jpg'', ''d/b.mov'')] (run_state fs_two_pairs) {}
   = (Raised MetadataError,
      \<lparr>filesys = fs_two_pairs(''out'' \<mapsto> Dir [''a.jpg''], ''out/a.jpg'' \<mapsto> File [1, 2, 3, 9, 8]),
       xmp_prefixes = {''GCamera''}\<rparr>, {})"
proof -
  have "validate_media (filesys (run_state fs_two_pairs)) ''d/a.jpg'' ''d/a.mov''"
    by (simp add: run_state_def validate_two_pairs)
  then show ?thesis by (simp add: first_convert_raises)
qed

lemma second_pair_alone:
  "convert_pairs (test_collab [1, 2, 3, 9, 8]) ''out'' False
     [(''d/b.jpg'', ''d/b.mov'')] (run_state fs_two_pairs) {}
   = (Returned (),
      \<lparr>filesys = fs_two_pairs(''out'' \<mapsto> Dir [''b.jpg''], ''out/b.jpg'' \<mapsto> File [4, 5, 1]),
       xmp_prefixes = {''GCamera''}\<rparr>, {''d/b.mov'', ''d/b.jpg''})"
proof -
  have "validate_media (filesys (run_state fs_two_pairs)) ''d/b.jpg'' ''d/b.mov''"
    by (simp add: run_state_def validate_two_pairs)
  then show ?thesis by (simp add: second_convert_returns)
qed

section \<open>Claims\<close>

text \<open>
  C1. The claim: the output of a merge has the size of the photo plus the size of the
  video, and the offset handed to \<open>add_xmp_metadata\<close> is the size of the output minus
  the size of the photo. It fails when the destination directory is the directory of
  the photo, which the prompts of \<^verbatim>\<open>main\<close> accept: the output path is then the path of the photo,
  opening it for writing empties the photo before it is read, and the output holds the
  video alone. Here the photo has 3 bytes and the video 2; the pair passes
  \<open>validate_media\<close>; the output has 2 bytes, not 5, and \<open>convert\<close> hands the offset 0 to
  \<open>add_xmp_metadata\<close>, not 2. (Lemma \<open>convert_distinct\<close> has the claim for an output path
  that is neither input path.)
\<close>

theorem merge_into_source_directory_sizes:
  "main L 1 (run_state (fs_pair [9, 8])) [''d'', ''d'', ''no'']
     = main_convert L 1 (run_state (fs_pair [9, 8])) ''d'' ''d'' False
   \<and> os_path_getsize (fs_pair [9, 8]) ''d/a.jpg'' = Returned 3
   \<and> os_path_getsize (fs_pair [9, 8]) ''d/a.mov'' = Returned 2
   \<and> validate_media (fs_pair [9, 8]) ''d/a.jpg'' ''d/a.mov''
   \<and> fst (merge_files L (fs_pair [9, 8]) ''d/a.jpg'' ''d/a.mov'' ''d'') = Returned ''d/a.jpg''
   \<and> os_path_getsize (snd (merge_files L (fs_pair [9, 8]) ''d/a.jpg'' ''d/a.mov'' ''d'')) ''d/a.jpg''
       = Returned 2
   \<and> convert L (run_state (fs_pair [9, 8])) ''d/a.jpg'' ''d/a.mov'' ''d'' False
       = (case add_xmp_metadata L (run_state ((fs_pair [9, 8])(''d/a.jpg'' \<mapsto> File [9, 8])))
                 ''d/a.jpg'' 0 of
            (Raised e, st3) \<Rightarrow> (Raised e, st3)
          | (Returned u, st3) \<Rightarrow> (Returned None, st3))"
proof (intro conjI)
  show "main L 1 (run_state (fs_pair [9, 8])) [''d'', ''d'', ''no'']
     = main_convert L 1 (run_state (fs_pair [9, 8])) ''d'' ''d'' False"
    by (simp add: main_def run_state_def lower_def lower_char_def os_path_isdir_def
        fs_pair_lookup)
  show "os_path_getsize (fs_pair [9, 8]) ''d/a.jpg'' = Returned 3"
    and "os_path_getsize (fs_pair [9, 8]) ''d/a.mov'' = Returned 2"
    by (simp_all add: os_path_getsize_def fs_pair_lookup)
  show "validate_media (fs_pair [9, 8]) ''d/a.jpg'' ''d/a.mov''"
    by (rule validate_pair)
  show "fst (merge_files L (fs_pair [9, 8]) ''d/a.jpg'' ''d/a.mov'' ''d'') = Returned ''d/a.jpg''"
    by (simp add: merge_into_source_directory)
  show "os_path_getsize (snd (merge_files L (fs_pair [9, 8]) ''d/a.jpg'' ''d/a.mov'' ''d'')) ''d/a.jpg''
       = Returned 2"
    by (simp add: merge_into_source_directory os_path_getsize_def)
  have gate: "size_gate (fs_pair [9, 8]) ''d/a.mov'' = Returned False"
    by (simp add: size_gate_cases fs_pair_lookup)
  have jpeg: "\<not> endswith (lower ''d/a.jpg'') ''.heic''"
    by (simp add: endswith_def lower_def lower_char_def)
  show "convert L (run_state (fs_pair [9, 8])) ''d/a.jpg'' ''d/a.mov'' ''d'' False
       = (case add_xmp_metadata L (run_state ((fs_pair [9, 8])(''d/a.jpg'' \<mapsto> File [9, 8])))
                 ''d/a.jpg'' 0 of
            (Raised e, st3) \<Rightarrow> (Raised e, st3)
          | (Returned u, st3) \<Rightarrow> (Returned None, st3))"
    by (simp add: convert_def run_state_def gate jpeg merge_into_source_directory
        os_path_getsize_def)
qed

text \<open>
  C2. The claim: the first bytes of the output are the bytes of the photo and the rest are
  the bytes of the video. It fails on the same input as C1, a run whose destination is
  the source directory: the scan finds the pair, the photo holds 1, 2, 3 and the video
  9, 8, and after the merge the output, which is the photo file itself, holds 9, 8. Its
  first three bytes are not those of the photo and nothing follows them. (Lemma
  \<open>merge_files_distinct\<close> has the claim for an output path that is neither input path.)
\<close>

theorem merge_into_source_directory_bytes:
  "process_directory 1 (fs_pair [9, 8]) ''d'' False = Some [(''d/a.jpg'', ''d/a.mov'')]
   \<and> file_content (fs_pair [9, 8]) ''d/a.jpg'' = [1, 2, 3]
   \<and> file_content (fs_pair [9, 8]) ''d/a.mov'' = [9, 8]
   \<and> take 3 (file_content (snd (merge_files L (fs_pair [9, 8]) ''d/a.jpg'' ''d/a.mov'' ''d''))
               ''d/a.jpg'') = [9, 8]
   \<and> drop 3 (file_content (snd (merge_files L (fs_pair [9, 8]) ''d/a.jpg'' ''d/a.mov'' ''d''))
               ''d/a.jpg'') = []"
  by (simp add: scan_pair merge_into_source_directory file_content_def fs_pair_lookup)

text \<open>
  C3. With the convert-all override off, \<open>convert\<close> returns \<^verbatim>\<open>False\<close> exactly when the video
  is missing or its size exceeds 10 * 1024 * 1024 bytes, and a call that returns \<^verbatim>\<open>False\<close>
  leaves the state as it was: nothing is merged and no metadata is written. With the
  override on it never returns \<^verbatim>\<open>False\<close>. A video of exactly 10 MiB is not skipped, and
  the call then does what it does with the override on; a video of 10 MiB and one byte
  is skipped.
\<close>

theorem convert_size_gate:
  "(\<not> convert_all \<longrightarrow>
      (fst (convert L st photo_path video_path output_path convert_all) = Returned (Some False))
      = (\<not> os_path_exists (filesys st) video_path
         \<or> (\<exists>n. os_path_getsize (filesys st) video_path = Returned n \<and> 10 * 1024 * 1024 < n)))
   \<and> (fst (convert L st photo_path video_path output_path convert_all) = Returned (Some False)
        \<longrightarrow> convert L st photo_path video_path output_path convert_all = (Returned (Some False), st))
   \<and> (convert_all \<longrightarrow>
        fst (convert L st photo_path video_path output_path convert_all) \<noteq> Returned (Some False))
   \<and> (filesys st video_path = Some (File b) \<and> length b = 10 * 1024 * 1024 \<longrightarrow>
        fst (convert L st photo_path video_path output_path False) \<noteq> Returned (Some False)
        \<and> convert L st photo_path video_path output_path False
            = convert L st photo_path video_path output_path True)
   \<and> (filesys st video_path = Some (File b) \<and> length b = 10 * 1024 * 1024 + 1 \<longrightarrow>
        convert L st photo_path video_path output_path False = (Returned (Some False), st))"
proof (intro conjI impI)
  assume off: "\<not> convert_all"
  show "(fst (convert L st photo_path video_path output_path convert_all) = Returned (Some False))
      = (\<not> os_path_exists (filesys st) video_path
         \<or> (\<exists>n. os_path_getsize (filesys st) video_path = Returned n \<and> 10 * 1024 * 1024 < n))"
  proof (cases "size_gate (filesys st) video_path = Returned True")
    case True
    then have "fst (convert L st photo_path video_path output_path False) = Returned (Some False)"
      by (simp add: convert_gate_closed)
    moreover from True have "\<not> os_path_exists (filesys st) video_path
         \<or> (\<exists>n. os_path_getsize (filesys st) video_path = Returned n \<and> 10 * 1024 * 1024 < n)"
      by (auto simp: size_gate_def video_size_limit_mb_def split: if_splits outcome.splits)
    ultimately show ?thesis using off by simp
  next
    case False
    then have open_gate: "size_gate (filesys st) video_path = Returned False"
      by (auto simp: size_gate_cases split: option.splits node.splits)
    then have "fst (convert L st photo_path video_path output_path False) \<noteq> Returned (Some False)"
      by (simp add: convert_gate_open convert_all_never_skips)
    moreover from open_gate have "\<not> (\<not> os_path_exists (filesys st) video_path
         \<or> (\<exists>n. os_path_getsize (filesys st) video_path = Returned n \<and> 10 * 1024 * 1024 < n))"
      by (auto simp: size_gate_def video_size_limit_mb_def split: if_splits outcome.splits)
    ultimately show ?thesis using off by simp
  qed
next
  assume skipped: "fst (convert L st photo_path video_path output_path convert_all) = Returned (Some False)"
  then have off: "\<not> convert_all"
    using convert_all_never_skips [of L st photo_path video_path output_path] by auto
  have "size_gate (filesys st) video_path = Returned True"
  proof (rule ccontr)
    assume "size_gate (filesys st) video_path \<noteq> Returned True"
    then have "size_gate (filesys st) video_path = Returned False"
      by (auto simp: size_gate_cases split: option.splits node.splits)
    with skipped off show False
      by (simp add: convert_gate_open convert_all_never_skips)
  qed
  with off show "convert L st photo_path video_path output_path convert_all = (Returned (Some False), st)"
    by (simp add: convert_gate_closed)
next
  assume "convert_all"
  then show "fst (convert L st photo_path video_path output_path convert_all) \<noteq> Returned (Some False)"
    by (simp add: convert_all_never_skips)
next
  assume "filesys st video_path = Some (File b) \<and> length b = 10 * 1024 * 1024"
  then have "size_gate (filesys st) video_path = Returned False"
    by (simp add: size_gate_cases)
  then show "fst (convert L st photo_path video_path output_path False) \<noteq> Returned (Some False)"
    and "convert L st photo_path video_path output_path False
            = convert L st photo_path video_path output_path True"
    by (simp_all add: convert_gate_open convert_all_never_skips)
next
  assume "filesys st video_path = Some (File b) \<and> length b = 10 * 1024 * 1024 + 1"
  then have "size_gate (filesys st) video_path = Returned True"
    by (simp add: size_gate_cases)
  then show "convert L st photo_path video_path output_path False = (Returned (Some False), st)"
    by (rule convert_gate_closed)
qed

theorem convert_size_gate_witness:
  "fst (convert (test_collab []) (run_state (fs_pair video_10_mib))
          ''d/a.jpg'' ''d/a.mov'' ''out'' False) \<noteq> Returned (Some False)
   \<and> convert (test_collab []) (run_state (fs_pair video_over_10_mib))
          ''d/a.jpg'' ''d/a.mov'' ''out'' False
       = (Returned (Some False), run_state (fs_pair video_over_10_mib))
   \<and> fst (convert (test_collab []) (run_state (fs_pair [9, 8])) ''d/a.jpg'' ''d/b.mov'' ''out'' False)
       = Returned (Some False)
   \<and> fst (convert (test_collab []) (run_state (fs_pair video_over_10_mib))
          ''d/a.jpg'' ''d/a.mov'' ''out'' True) \<noteq> Returned (Some False)"
proof (intro conjI)
  let ?L = "test_collab []"
  let ?at = "run_state (fs_pair video_10_mib)"
  let ?over = "run_state (fs_pair video_over_10_mib)"
  have at: "filesys ?at ''d/a.mov'' = Some (File (video_10_mib))
            \<and> length (video_10_mib) = 10 * 1024 * 1024"
    by (simp add: run_state_def fs_pair_lookup video_10_mib_def video_over_10_mib_def)
  then show "fst (convert ?L ?at ''d/a.jpg'' ''d/a.mov'' ''out'' False) \<noteq> Returned (Some False)"
    using convert_size_gate [of False ?L ?at "''d/a.jpg''" "''d/a.mov''" "''out''"
        video_10_mib]
    by blast
  have over: "filesys ?over ''d/a.mov'' = Some (File (video_over_10_mib))
            \<and> length (video_over_10_mib) = 10 * 1024 * 1024 + 1"
    by (simp add: run_state_def fs_pair_lookup video_10_mib_def video_over_10_mib_def)
  then show "convert ?L ?over ''d/a.jpg'' ''d/a.mov'' ''out'' False = (Returned (Some False), ?over)"
    using convert_size_gate [of False ?L ?over "''d/a.jpg''" "''d/a.mov''" "''out''"
        video_over_10_mib]
    by blast
  have missing: "\<not> os_path_exists (filesys (run_state (fs_pair [9, 8]))) ''d/b.mov''"
    by (simp add: run_state_def fs_pair_def os_path_exists_def)
  then show "fst (convert ?L (run_state (fs_pair [9, 8])) ''d/a.jpg'' ''d/b.mov'' ''out'' False)
       = Returned (Some False)"
    using convert_size_gate [of False ?L "run_state (fs_pair [9, 8])" "''d/a.jpg''" "''d/b.mov''"
        "''out''" "[]"]
    by blast
  show "fst (convert ?L ?over ''d/a.jpg'' ''d/a.mov'' ''out'' True) \<noteq> Returned (Some False)"
    using convert_size_gate [of True ?L ?over "''d/a.jpg''" "''d/a.mov''" "''out''" "[]"]
    by blast
qed

text \<open>
  C4. For every photo path, \<open>matching_video\<close> probes the base name of the photo (its path
  without the extension) followed by \<^verbatim>\<open>.mov\<close>, \<^verbatim>\<open>.mp4\<close>, \<^verbatim>\<open>.MOV\<close>, \<^verbatim>\<open>.MP4\<close>, in this
  order. It returns the empty string when none of the four exists, and otherwise the
  first that exists: the probe at index \<open>i\<close> when it exists and no earlier one does. Hence
  for \<^verbatim>\<open>a.jpg\<close> with both \<^verbatim>\<open>a.mov\<close> and \<^verbatim>\<open>a.mp4\<close> present the result is \<^verbatim>\<open>a.mov\<close>, whatever
  else the file system holds.
\<close>

theorem matching_video_first_match:
  "((\<forall>i<4. \<not> os_path_exists fs (fst (splitext photo_path) @ [''.mov'', ''.mp4'', ''.MOV'', ''.MP4''] ! i))
      \<longrightarrow> matching_video fs photo_path = [])
   \<and> (i < 4
        \<and> os_path_exists fs (fst (splitext photo_path) @ [''.mov'', ''.mp4'', ''.MOV'', ''.MP4''] ! i)
        \<and> (\<forall>j<i. \<not> os_path_exists fs (fst (splitext photo_path) @ [''.mov'', ''.mp4'', ''.MOV'', ''.MP4''] ! j))
      \<longrightarrow> matching_video fs photo_path = fst (splitext photo_path) @ [''.mov'', ''.mp4'', ''.MOV'', ''.MP4''] ! i)
   \<and> (os_path_exists fs ''a.mov'' \<and> os_path_exists fs ''a.mp4''
      \<longrightarrow> matching_video fs ''a.jpg'' = ''a.mov'')"
proof (intro conjI impI)
  assume none: "\<forall>i<4. \<not> os_path_exists fs (fst (splitext photo_path) @ [''.mov'', ''.mp4'', ''.MOV'', ''.MP4''] ! i)"
  have "list_all (\<lambda>ext. \<not> os_path_exists fs (fst (splitext photo_path) @ ext)) video_exts"
    using none [rule_format, of 0] none [rule_format, of 1] none [rule_format, of 2]
      none [rule_format, of 3]
    by (simp add: video_exts_def)
  then show "matching_video fs photo_path = []"
    unfolding matching_video_def by (rule first_existing_none)
next
  assume "i < 4
        \<and> os_path_exists fs (fst (splitext photo_path) @ [''.mov'', ''.mp4'', ''.MOV'', ''.MP4''] ! i)
        \<and> (\<forall>j<i. \<not> os_path_exists fs (fst (splitext photo_path) @ [''.mov'', ''.mp4'', ''.MOV'', ''.MP4''] ! j))"
  then show "matching_video fs photo_path = fst (splitext photo_path) @ [''.mov'', ''.mp4'', ''.MOV'', ''.MP4''] ! i"
    unfolding matching_video_def video_exts_def by (intro first_existing_at) auto
next
  assume "os_path_exists fs ''a.mov'' \<and> os_path_exists fs ''a.mp4''"
  then show "matching_video fs ''a.jpg'' = ''a.mov''"
    by (simp add: matching_video_def video_exts_def splitext_a_jpg)
qed

theorem matching_video_first_match_witness:
  "matching_video fs_two_videos ''a.jpg'' = ''a.mov''
   \<and> matching_video [''d/b.mp4'' \<mapsto> File [], ''d/b.MP4'' \<mapsto> File []] ''d/b.jpeg'' = ''d/b.mp4''
   \<and> matching_video Map.empty ''d/b.jpeg'' = []"
proof (intro conjI)
  have "os_path_exists fs_two_videos ''a.mov'' \<and> os_path_exists fs_two_videos ''a.mp4''"
    by (simp add: fs_two_videos_def os_path_exists_def)
  then show "matching_video fs_two_videos ''a.jpg'' = ''a.mov''"
    using matching_video_first_match [of fs_two_videos "''a.jpg''" 0] by blast
next
  let ?fs = "[''d/b.mp4'' \<mapsto> File [], ''d/b.MP4'' \<mapsto> File []]"
  have "(1::nat) < 4
        \<and> os_path_exists ?fs (fst (splitext ''d/b.jpeg'') @ [''.mov'', ''.mp4'', ''.MOV'', ''.MP4''] ! 1)
        \<and> (\<forall>j<1. \<not> os_path_exists ?fs (fst (splitext ''d/b.jpeg'') @ [''.mov'', ''.mp4'', ''.MOV'', ''.MP4''] ! j))"
    by (simp add: splitext_d_b_jpeg os_path_exists_def)
  then have "matching_video ?fs ''d/b.jpeg'' = fst (splitext ''d/b.jpeg'') @ [''.mov'', ''.mp4'', ''.MOV'', ''.MP4''] ! 1"
    using matching_video_first_match [of ?fs "''d/b.jpeg''" 1] by blast
  then show "matching_video ?fs ''d/b.jpeg'' = ''d/b.mp4''"
    by (simp add: splitext_d_b_jpeg)
next
  have "\<forall>i<4. \<not> os_path_exists Map.empty (fst (splitext ''d/b.jpeg'') @ [''.mov'', ''.mp4'', ''.MOV'', ''.MP4''] ! i)"
    by (simp add: os_path_exists_def)
  then show "matching_video Map.empty ''d/b.jpeg'' = []"
    using matching_video_first_match [of Map.empty "''d/b.jpeg''" 0] by blast
qed

text \<open>
  C5. The claim: a pair of a \<^verbatim>\<open>.heic\<close> photo and a sibling \<^verbatim>\<open>.mp4\<close> video is first
  converted to JPEG and then muxed from the sibling \<^verbatim>\<open>.jpg\<close>. \<open>convert\<close> has that step,
  and \<open>process_directory\<close> finds the pair, but \<^verbatim>\<open>main\<close> calls \<open>convert\<close> only for pairs that
  pass \<open>validate_media\<close>, which accepts \<^verbatim>\<open>.jpg\<close> and \<^verbatim>\<open>.jpeg\<close> photos only. For a directory
  with \<^verbatim>\<open>img2.heic\<close> and \<^verbatim>\<open>img2.mp4\<close> the run ends with the state it started from and an
  empty set of processed files, whatever the codecs and the convert-all choice: no JPEG
  is written and nothing is muxed.
\<close>

theorem heic_pair_never_converted:
  "process_directory 1 fs_heic ''d'' False = Some [(''d/img2.heic'', ''d/img2.mp4'')]
   \<and> \<not> validate_media fs_heic ''d/img2.heic'' ''d/img2.mp4''
   \<and> main_convert L 1 (run_state fs_heic) ''d'' ''out'' convert_all
       = Some (Returned (), run_state fs_heic, {})"
proof -
  have "endswith (lower ''d/img2.heic'') ''.heic''"
    by (simp add: endswith_def lower_def lower_char_def)
  then have rejected: "\<not> validate_media fs_heic ''d/img2.heic'' ''d/img2.mp4''"
    by (rule validate_media_rejects_heic)
  then show ?thesis
    by (simp add: main_convert_def scan_heic run_state_def)
qed

text \<open>
  C6. The claim: the two paths of a pair enter the set of processed files exactly when
  the pair was muxed, and not when it is skipped at the size gate. The loop of \<^verbatim>\<open>main\<close>
  drops the result of \<open>convert\<close> and adds both paths whenever \<open>convert\<close> returns. For a
  valid pair whose video has 10 MiB and one byte, with the override off, \<open>convert\<close>
  returns \<^verbatim>\<open>False\<close> and leaves the state as it was, and still both paths are in the set.
\<close>

theorem size_gate_skip_counted_as_processed:
  "validate_media (fs_pair video_over_10_mib) ''d/a.jpg'' ''d/a.mov''
   \<and> convert L (run_state (fs_pair video_over_10_mib))
         ''d/a.jpg'' ''d/a.mov'' ''out'' False
       = (Returned (Some False), run_state (fs_pair video_over_10_mib))
   \<and> main_convert L 1 (run_state (fs_pair video_over_10_mib)) ''d'' ''out'' False
       = Some (Returned (), run_state (fs_pair video_over_10_mib),
               {''d/a.mov'', ''d/a.jpg''})"
proof -
  let ?st = "run_state (fs_pair video_over_10_mib)"
  have "size_gate (filesys ?st) ''d/a.mov'' = Returned True"
    by (simp add: size_gate_cases run_state_def fs_pair_lookup video_10_mib_def video_over_10_mib_def)
  then have skip: "convert L ?st ''d/a.jpg'' ''d/a.mov'' ''out'' False = (Returned (Some False), ?st)"
    by (rule convert_gate_closed)
  have valid: "validate_media (filesys ?st) ''d/a.jpg'' ''d/a.mov''"
    by (simp add: run_state_def validate_pair)
  have scan: "process_directory 1 (filesys ?st) ''d'' False = Some [(''d/a.jpg'', ''d/a.mov'')]"
    by (simp add: run_state_def scan_pair)
  have "main_convert L 1 ?st ''d'' ''out'' False = Some (Returned (), ?st, {''d/a.mov'', ''d/a.jpg''})"
    unfolding main_convert_def scan by (simp add: valid skip)
  with skip valid show ?thesis by (simp add: run_state_def)
qed

text \<open>
  C7. The claim: the scan descends into subdirectories or stays at the top level
  according to its recursion flag, and \<^verbatim>\<open>main\<close>, which passes \<^verbatim>\<open>False\<close>, finds no pair
  below the root. \<open>process_directory\<close> never reads the flag and always walks the whole
  tree: for a root whose only pair is in a subdirectory, the scan returns that pair with
  the flag off as with the flag on, and \<^verbatim>\<open>main\<close> runs its loop over it.
\<close>

theorem scan_descends_with_flag_off:
  "process_directory 2 fs_nested ''root'' False = Some [(''root/sub/b.jpg'', ''root/sub/b.mov'')]
   \<and> process_directory 2 fs_nested ''root'' True = process_directory 2 fs_nested ''root'' False
   \<and> main_convert L 2 (run_state fs_nested) ''root'' ''out'' convert_all
       = Some (convert_pairs L ''out'' convert_all [(''root/sub/b.jpg'', ''root/sub/b.mov'')]
                 (run_state fs_nested) {})"
proof -
  have two: "(2::nat) = Suc (Suc 0)" by simp
  show ?thesis
    unfolding main_convert_def two by (simp add: scan_nested run_state_def)
qed

text \<open>
  C8. When the merged file can be read by exiv2, \<open>add_xmp_metadata\<close> hands to the
  metadata write the properties it read with exactly four of them set:
  \<^verbatim>\<open>Xmp.GCamera.MicroVideo\<close> to 1, \<^verbatim>\<open>Xmp.GCamera.MicroVideoVersion\<close> to 1,
  \<^verbatim>\<open>Xmp.GCamera.MicroVideoOffset\<close> to the offset it was given, and
  \<^verbatim>\<open>Xmp.GCamera.MicroVideoPresentationTimestampUs\<close> to 1500000; every other property is as
  it was read. The merged file becomes what the write returns, the \<^verbatim>\<open>GCamera\<close> prefix is
  registered, and a failing write raises.
\<close>

theorem add_xmp_metadata_fields:
  assumes merged: "filesys st merged_file = Some (File b)"
    and existing: "xmp_read L b = Some metadata"
  shows "\<exists>written.
           (\<forall>key. written key =
              (if key = ''Xmp.GCamera.MicroVideo'' then Some (XmpInt 1)
               else if key = ''Xmp.GCamera.MicroVideoVersion'' then Some (XmpInt 1)
               else if key = ''Xmp.GCamera.MicroVideoOffset'' then Some (XmpInt offset)
               else if key = ''Xmp.GCamera.MicroVideoPresentationTimestampUs''
                 then Some (XmpInt 1500000)
               else metadata key))
           \<and> ''GCamera'' \<in> xmp_prefixes (register_namespace st ''GCamera'')
           \<and> add_xmp_metadata L st merged_file offset =
               (case xmp_write L b written of
                  None \<Rightarrow> (Raised MetadataError, register_namespace st ''GCamera'')
                | Some b' \<Rightarrow>
                    (Returned (),
                     (register_namespace st ''GCamera'')\<lparr>filesys := (filesys st)(merged_file \<mapsto> File b')\<rparr>))"
proof -
  let ?written = "set_micro_video metadata offset"
  have "\<forall>key. ?written key =
              (if key = ''Xmp.GCamera.MicroVideo'' then Some (XmpInt 1)
               else if key = ''Xmp.GCamera.MicroVideoVersion'' then Some (XmpInt 1)
               else if key = ''Xmp.GCamera.MicroVideoOffset'' then Some (XmpInt offset)
               else if key = ''Xmp.GCamera.MicroVideoPresentationTimestampUs''
                 then Some (XmpInt 1500000)
               else metadata key)"
    by (simp add: set_micro_video_def)
  moreover have "''GCamera'' \<in> xmp_prefixes (register_namespace st ''GCamera'')"
    by (simp add: register_namespace_def)
  moreover have "filesys (register_namespace st ''GCamera'') = filesys st"
    by (simp add: register_namespace_def)
  then have "add_xmp_metadata L st merged_file offset =
               (case xmp_write L b ?written of
                  None \<Rightarrow> (Raised MetadataError, register_namespace st ''GCamera'')
                | Some b' \<Rightarrow>
                    (Returned (),
                     (register_namespace st ''GCamera'')\<lparr>filesys := (filesys st)(merged_file \<mapsto> File b')\<rparr>))"
    using merged existing by (simp add: add_xmp_metadata_def Let_def split: option.splits)
  ultimately show ?thesis by blast
qed

theorem add_xmp_metadata_fields_witness:
  "add_xmp_metadata (test_collab []) (run_state (fs_pair [9, 8])) ''d/a.jpg'' 2
   = (Returned (),
      \<lparr>filesys = (fs_pair [9, 8])(''d/a.jpg'' \<mapsto> File [1, 2, 3, 2]), xmp_prefixes = {''GCamera''}\<rparr>)"
proof -
  let ?L = "test_collab []" and ?st = "run_state (fs_pair [9, 8])"
  have merged: "filesys ?st ''d/a.jpg'' = Some (File [1, 2, 3])"
    by (simp add: run_state_def fs_pair_lookup)
  have existing: "xmp_read ?L [1, 2, 3] = Some Map.empty"
    by (simp add: test_collab_def)
  from add_xmp_metadata_fields [OF merged existing, of 2]
  obtain written where fields: "\<forall>key. written key =
              (if key = ''Xmp.GCamera.MicroVideo'' then Some (XmpInt 1)
               else if key = ''Xmp.GCamera.MicroVideoVersion'' then Some (XmpInt 1)
               else if key = ''Xmp.GCamera.MicroVideoOffset'' then Some (XmpInt 2)
               else if key = ''Xmp.GCamera.MicroVideoPresentationTimestampUs''
                 then Some (XmpInt 1500000)
               else Map.empty key)"
    and result: "add_xmp_metadata ?L ?st ''d/a.jpg'' 2 =
               (case xmp_write ?L [1, 2, 3] written of
                  None \<Rightarrow> (Raised MetadataError, register_namespace ?st ''GCamera'')
                | Some b' \<Rightarrow>
                    (Returned (),
                     (register_namespace ?st ''GCamera'')\<lparr>filesys := (filesys ?st)(''d/a.jpg'' \<mapsto> File b')\<rparr>))"
    by blast
  from fields have "written ''Xmp.GCamera.MicroVideoOffset'' = Some (XmpInt 2)"
    by simp
  then have "xmp_write ?L [1, 2, 3] written = Some [1, 2, 3, 2]"
    by (simp add: test_collab_def)
  with result show ?thesis
    by (simp add: register_namespace_def run_state_def)
qed

text \<open>
  C9. The claim: a fatal failure while processing one pair leaves the remaining pairs to
  be processed, and an invalid root directory aborts the run. It fails: nothing catches
  an exception of \<open>convert\<close>. With a metadata write that raises on the first merged file,
  the run over two pairs ends with that exception and the second pair has no output,
  although the second pair alone is muxed. Nor does an invalid root directory abort the
  run: the prompt of \<^verbatim>\<open>main\<close> asks again and takes the next answer.
\<close>

theorem metadata_failure_ends_batch:
  "fst (convert_pairs (test_collab [1, 2, 3, 9, 8]) ''out'' False
          [(''d/a.jpg'', ''d/a.mov''), (''d/b.jpg'', ''d/b.mov'')] (run_state fs_two_pairs) {})
     = Raised MetadataError
   \<and> filesys (fst (snd (convert_pairs (test_collab [1, 2, 3, 9, 8]) ''out'' False
          [(''d/a.jpg'', ''d/a.mov''), (''d/b.jpg'', ''d/b.mov'')] (run_state fs_two_pairs) {})))
        ''out/b.jpg'' = None
   \<and> fst (convert_pairs (test_collab [1, 2, 3, 9, 8]) ''out'' False
          [(''d/b.jpg'', ''d/b.mov'')] (run_state fs_two_pairs) {})
     = Returned ()
   \<and> filesys (fst (snd (convert_pairs (test_collab [1, 2, 3, 9, 8]) ''out'' False
          [(''d/b.jpg'', ''d/b.mov'')] (run_state fs_two_pairs) {})))
        ''out/b.jpg'' = Some (File [4, 5, 1])
   \<and> get_source_directory fs_two_pairs [''nowhere'', ''d''] = (Returned ''d'', [])"
proof (intro conjI)
  show "fst (convert_pairs (test_collab [1, 2, 3, 9, 8]) ''out'' False
          [(''d/a.jpg'', ''d/a.mov''), (''d/b.jpg'', ''d/b.mov'')] (run_state fs_two_pairs) {})
     = Raised MetadataError"
    by (simp add: first_pair_raises del: convert_pairs.simps)
  show "filesys (fst (snd (convert_pairs (test_collab [1, 2, 3, 9, 8]) ''out'' False
          [(''d/a.jpg'', ''d/a.mov''), (''d/b.jpg'', ''d/b.mov'')] (run_state fs_two_pairs) {})))
        ''out/b.jpg'' = None"
    by (simp add: first_pair_raises fs_two_pairs_lookup del: convert_pairs.simps)
  show "fst (convert_pairs (test_collab [1, 2, 3, 9, 8]) ''out'' False
          [(''d/b.jpg'', ''d/b.mov'')] (run_state fs_two_pairs) {})
     = Returned ()"
    by (simp add: second_pair_alone del: convert_pairs.simps)
  show "filesys (fst (snd (convert_pairs (test_collab [1, 2, 3, 9, 8]) ''out'' False
          [(''d/b.jpg'', ''d/b.mov'')] (run_state fs_two_pairs) {})))
        ''out/b.jpg'' = Some (File [4, 5, 1])"
    by (simp add: second_pair_alone del: convert_pairs.simps)
  show "get_source_directory fs_two_pairs [''nowhere'', ''d''] = (Returned ''d'', [])"
    by (simp add: os_path_isdir_def fs_two_pairs_lookup)
qed

text \<open>
  C9, amended. After the pairs before it have been processed: a pair that fails
  \<open>validate_media\<close>, and a pair that \<open>convert\<close> skips at its size gate, do not stop the
  loop, whose outcome and final state are those of the loop over the remaining pairs; a
  pair that \<open>convert\<close> muxes is recorded as processed and the loop goes on with the
  remaining pairs; a pair for which \<open>convert\<close> raises, as on a failing metadata write,
  ends the loop with that exception, and the remaining pairs are not processed. An
  answer to the source directory prompt that is not a directory does not end the run:
  the prompt asks again. \<open>validate_directory\<close>, which \<^verbatim>\<open>main\<close> does not call, exits with
  status 1 on a path that is not a directory and returns on a directory.
\<close>

theorem per_pair_failure_propagation:
  assumes before: "convert_pairs L out_dir convert_all before st processed = (Returned (), st1, processed1)"
  shows "(\<not> validate_media (filesys st1) photo_path video_path \<longrightarrow>
            convert_pairs L out_dir convert_all (before @ (photo_path, video_path) # after) st processed
            = convert_pairs L out_dir convert_all after st1 processed1)
       \<and> (validate_media (filesys st1) photo_path video_path
            \<and> convert L st1 photo_path video_path out_dir convert_all = (Returned (Some False), st2) \<longrightarrow>
            fst (convert_pairs L out_dir convert_all (before @ (photo_path, video_path) # after) st processed)
            = fst (convert_pairs L out_dir convert_all after st1 processed1)
            \<and> fst (snd (convert_pairs L out_dir convert_all (before @ (photo_path, video_path) # after)
                          st processed))
            = fst (snd (convert_pairs L out_dir convert_all after st1 processed1)))
       \<and> (validate_media (filesys st1) photo_path video_path
            \<and> convert L st1 photo_path video_path out_dir convert_all = (Returned None, st2) \<longrightarrow>
            convert_pairs L out_dir convert_all (before @ (photo_path, video_path) # after) st processed
            = convert_pairs L out_dir convert_all after st2
                (insert video_path (insert photo_path processed1)))
       \<and> (validate_media (filesys st1) photo_path video_path
            \<and> convert L st1 photo_path video_path out_dir convert_all = (Raised e, st2) \<longrightarrow>
            convert_pairs L out_dir convert_all (before @ (photo_path, video_path) # after) st processed
            = (Raised e, st2, processed1))
       \<and> (\<not> os_path_isdir fs answer \<longrightarrow>
            get_source_directory fs (answer # rest) = get_source_directory fs rest)
       \<and> (\<not> os_path_isdir fs dir \<longrightarrow> validate_directory fs dir = Raised (SystemExit 1))
       \<and> (os_path_isdir fs dir \<longrightarrow> validate_directory fs dir = Returned ())"
proof -
  let ?all = "convert_pairs L out_dir convert_all (before @ (photo_path, video_path) # after) st processed"
  have unfold: "?all = convert_pairs L out_dir convert_all ((photo_path, video_path) # after) st1 processed1"
    using before by (simp add: convert_pairs_append del: convert_pairs.simps)
  have invalid: "\<not> validate_media (filesys st1) photo_path video_path \<longrightarrow>
      ?all = convert_pairs L out_dir convert_all after st1 processed1"
    by (simp add: unfold)
  have skipped: "validate_media (filesys st1) photo_path video_path
      \<and> convert L st1 photo_path video_path out_dir convert_all = (Returned (Some False), st2) \<longrightarrow>
      fst ?all = fst (convert_pairs L out_dir convert_all after st1 processed1)
      \<and> fst (snd ?all) = fst (snd (convert_pairs L out_dir convert_all after st1 processed1))"
  proof
    assume a: "validate_media (filesys st1) photo_path video_path
      \<and> convert L st1 photo_path video_path out_dir convert_all = (Returned (Some False), st2)"
    then have "st2 = st1" using convert_skip_unchanged by blast
    with a have "?all = convert_pairs L out_dir convert_all after st1
        (insert video_path (insert photo_path processed1))"
      by (simp add: unfold)
    then show "fst ?all = fst (convert_pairs L out_dir convert_all after st1 processed1)
      \<and> fst (snd ?all) = fst (snd (convert_pairs L out_dir convert_all after st1 processed1))"
      using convert_pairs_whatever_processed
        [of L out_dir convert_all after st1 "insert video_path (insert photo_path processed1)" processed1]
      by simp
  qed
  have muxed: "validate_media (filesys st1) photo_path video_path
      \<and> convert L st1 photo_path video_path out_dir convert_all = (Returned None, st2) \<longrightarrow>
      ?all = convert_pairs L out_dir convert_all after st2
                (insert video_path (insert photo_path processed1))"
    by (simp add: unfold)
  have raised: "validate_media (filesys st1) photo_path video_path
      \<and> convert L st1 photo_path video_path out_dir convert_all = (Raised e, st2) \<longrightarrow>
      ?all = (Raised e, st2, processed1)"
    by (simp add: unfold)
  have again: "\<not> os_path_isdir fs answer \<longrightarrow>
      get_source_directory fs (answer # rest) = get_source_directory fs rest"
    by simp
  have exits: "\<not> os_path_isdir fs dir \<longrightarrow> validate_directory fs dir = Raised (SystemExit 1)"
    by (simp add: validate_directory_def)
  have returns: "os_path_isdir fs dir \<longrightarrow> validate_directory fs dir = Returned ()"
    by (auto simp: validate_directory_def os_path_isdir_def os_path_exists_def
        split: option.splits)
  from invalid skipped muxed raised again exits returns show ?thesis
    by (intro conjI)
qed

theorem per_pair_failure_propagation_witness:
  "convert_pairs (test_collab [1, 2, 3, 9, 8]) ''out'' False
      [(''d/a.jpg'', ''d/c.mov''), (''d/b.jpg'', ''d/b.mov'')] (run_state fs_two_pairs) {}
     = convert_pairs (test_collab [1, 2, 3, 9, 8]) ''out'' False
         [(''d/b.jpg'', ''d/b.mov'')] (run_state fs_two_pairs) {}
   \<and> fst (convert_pairs (test_collab []) ''out'' False
        [(''d/a.jpg'', ''d/a.mov''), (''d/a.jpg'', ''d/c.mov'')] (run_state (fs_pair video_over_10_mib)) {})
     = Returned ()
   \<and> fst (snd (convert_pairs (test_collab []) ''out'' False
        [(''d/a.jpg'', ''d/a.mov''), (''d/a.jpg'', ''d/c.mov'')] (run_state (fs_pair video_over_10_mib)) {}))
     = run_state (fs_pair video_over_10_mib)
   \<and> convert_pairs (test_collab [1, 2, 3, 9, 8]) ''out'' False
        [(''d/b.jpg'', ''d/b.mov''), (''d/a.jpg'', ''d/c.mov'')] (run_state fs_two_pairs) {}
     = (Returned (),
        \<lparr>filesys = fs_two_pairs(''out'' \<mapsto> Dir [''b.jpg''], ''out/b.jpg'' \<mapsto> File [4, 5, 1]),
         xmp_prefixes = {''GCamera''}\<rparr>, {''d/b.mov'', ''d/b.jpg''})
   \<and> convert_pairs (test_collab [1, 2, 3, 9, 8]) ''out'' False
        [(''d/a.jpg'', ''d/a.mov''), (''d/b.jpg'', ''d/b.mov'')] (run_state fs_two_pairs) {}
     = (Raised MetadataError,
        snd (convert (test_collab [1, 2, 3, 9, 8]) (run_state fs_two_pairs)
               ''d/a.jpg'' ''d/a.mov'' ''out'' False), {})
   \<and> get_source_directory fs_two_pairs [''nowhere'', ''d'']
       = get_source_directory fs_two_pairs [''d'']
   \<and> validate_directory fs_two_pairs ''d/a.jpg'' = Raised (SystemExit 1)
   \<and> validate_directory fs_two_pairs ''d'' = Returned ()"
proof (intro conjI)
  let ?L = "test_collab [1, 2, 3, 9, 8]" and ?st = "run_state fs_two_pairs"
  have start: "convert_pairs ?L ''out'' False [] ?st {} = (Returned (), ?st, {})"
    by simp
  have missing: "\<not> validate_media (filesys ?st) ''d/a.jpg'' ''d/c.mov''"
    by (simp add: validate_media_def os_path_exists_def run_state_def fs_two_pairs_lookup)
  then show "convert_pairs ?L ''out'' False
      [(''d/a.jpg'', ''d/c.mov''), (''d/b.jpg'', ''d/b.mov'')] ?st {}
     = convert_pairs ?L ''out'' False [(''d/b.jpg'', ''d/b.mov'')] ?st {}"
    using per_pair_failure_propagation [OF start,
        where photo_path = "''d/a.jpg''" and video_path = "''d/c.mov''"
          and after = "[(''d/b.jpg'', ''d/b.mov'')]"]
    by (simp del: convert_pairs.simps)
  let ?big = "run_state (fs_pair video_over_10_mib)"
  have start_big: "convert_pairs (test_collab []) ''out'' False [] ?big {} = (Returned (), ?big, {})"
    by simp
  have "size_gate (filesys ?big) ''d/a.mov'' = Returned True"
    by (simp add: size_gate_cases run_state_def fs_pair_lookup video_over_10_mib_def)
  then have skip: "convert (test_collab []) ?big ''d/a.jpg'' ''d/a.mov'' ''out'' False
             = (Returned (Some False), ?big)"
    by (rule convert_gate_closed)
  have valid_big: "validate_media (filesys ?big) ''d/a.jpg'' ''d/a.mov''"
    by (simp add: run_state_def validate_pair)
  have rest_big: "convert_pairs (test_collab []) ''out'' False [(''d/a.jpg'', ''d/c.mov'')] ?big {}
      = (Returned (), ?big, {})"
    by (simp add: validate_media_def os_path_exists_def run_state_def fs_pair_def)
  from skip valid_big
  have goes_on: "fst (convert_pairs (test_collab []) ''out'' False
        ([] @ (''d/a.jpg'', ''d/a.mov'') # [(''d/a.jpg'', ''d/c.mov'')]) ?big {})
      = fst (convert_pairs (test_collab []) ''out'' False [(''d/a.jpg'', ''d/c.mov'')] ?big {})
    \<and> fst (snd (convert_pairs (test_collab []) ''out'' False
        ([] @ (''d/a.jpg'', ''d/a.mov'') # [(''d/a.jpg'', ''d/c.mov'')]) ?big {}))
      = fst (snd (convert_pairs (test_collab []) ''out'' False [(''d/a.jpg'', ''d/c.mov'')] ?big {}))"
    using per_pair_failure_propagation [OF start_big,
        where photo_path = "''d/a.jpg''" and video_path = "''d/a.mov''"
          and after = "[(''d/a.jpg'', ''d/c.mov'')]" and ?st2.0 = ?big]
    by blast
  then show "fst (convert_pairs (test_collab []) ''out'' False
        [(''d/a.jpg'', ''d/a.mov''), (''d/a.jpg'', ''d/c.mov'')] ?big {}) = Returned ()"
    by (simp add: rest_big del: convert_pairs.simps)
  from goes_on show "fst (snd (convert_pairs (test_collab []) ''out'' False
        [(''d/a.jpg'', ''d/a.mov''), (''d/a.jpg'', ''d/c.mov'')] ?big {})) = ?big"
    by (simp add: rest_big del: convert_pairs.simps)
  let ?done = "\<lparr>filesys = fs_two_pairs(''out'' \<mapsto> Dir [''b.jpg''], ''out/b.jpg'' \<mapsto> File [4, 5, 1]),
         xmp_prefixes = {''GCamera''}\<rparr>"
  have valid_b: "validate_media (filesys ?st) ''d/b.jpg'' ''d/b.mov''"
    by (simp add: run_state_def validate_two_pairs)
  have rest_b: "convert_pairs ?L ''out'' False [(''d/a.jpg'', ''d/c.mov'')] ?done {''d/b.mov'', ''d/b.jpg''}
      = (Returned (), ?done, {''d/b.mov'', ''d/b.jpg''})"
    by (simp add: validate_media_def os_path_exists_def fs_two_pairs_lookup)
  from valid_b second_convert_returns
  have "convert_pairs ?L ''out'' False
        ([] @ (''d/b.jpg'', ''d/b.mov'') # [(''d/a.jpg'', ''d/c.mov'')]) ?st {}
     = convert_pairs ?L ''out'' False [(''d/a.jpg'', ''d/c.mov'')] ?done {''d/b.mov'', ''d/b.jpg''}"
    using per_pair_failure_propagation [OF start,
        where photo_path = "''d/b.jpg''" and video_path = "''d/b.mov''"
          and after = "[(''d/a.jpg'', ''d/c.mov'')]" and ?st2.0 = ?done]
    by blast
  then show "convert_pairs ?L ''out'' False
        [(''d/b.jpg'', ''d/b.mov''), (''d/a.jpg'', ''d/c.mov'')] ?st {}
     = (Returned (), ?done, {''d/b.mov'', ''d/b.jpg''})"
    by (simp add: rest_b del: convert_pairs.simps)
  have "convert ?L ?st ''d/a.jpg'' ''d/a.mov'' ''out'' False
        = (Raised MetadataError, snd (convert ?L ?st ''d/a.jpg'' ''d/a.mov'' ''out'' False))"
    by (simp add: first_convert_raises)
  moreover have "validate_media (filesys ?st) ''d/a.jpg'' ''d/a.mov''"
    by (simp add: run_state_def validate_two_pairs)
  ultimately show "convert_pairs ?L ''out'' False
        [(''d/a.jpg'', ''d/a.mov''), (''d/b.jpg'', ''d/b.mov'')] ?st {}
     = (Raised MetadataError, snd (convert ?L ?st ''d/a.jpg'' ''d/a.mov'' ''out'' False), {})"
    using per_pair_failure_propagation [OF start,
        where photo_path = "''d/a.jpg''" and video_path = "''d/a.mov''"
          and after = "[(''d/b.jpg'', ''d/b.mov'')]" and e = MetadataError
          and ?st2.0 = "snd (convert ?L ?st ''d/a.jpg'' ''d/a.mov'' ''out'' False)"]
    by (simp del: convert_pairs.simps)
  have "\<not> os_path_isdir fs_two_pairs ''nowhere''"
    by (simp add: os_path_isdir_def fs_two_pairs_lookup)
  then show "get_source_directory fs_two_pairs [''nowhere'', ''d'']
       = get_source_directory fs_two_pairs [''d'']"
    using per_pair_failure_propagation [OF start, where fs = fs_two_pairs and answer = "''nowhere''"
        and rest = "[''d'']"]
    by blast
  have "\<not> os_path_isdir fs_two_pairs ''d/a.jpg''"
    by (simp add: os_path_isdir_def fs_two_pairs_lookup)
  then show "validate_directory fs_two_pairs ''d/a.jpg'' = Raised (SystemExit 1)"
    using per_pair_failure_propagation [OF start, where fs = fs_two_pairs and dir = "''d/a.jpg''"]
    by blast
  have "os_path_isdir fs_two_pairs ''d''"
    by (simp add: os_path_isdir_def fs_two_pairs_lookup)
  then show "validate_directory fs_two_pairs ''d'' = Returned ()"
    using per_pair_failure_propagation [OF start, where fs = fs_two_pairs and dir = "''d''"]
    by blast
qed



end
